theory Spec2Isabelle
  imports Main "HOL-Library.Sublist"
begin

section \<open>Python values used by the program\<close>

text \<open>
  A Python \<open>str\<close> is a sequence of Unicode code points; a code point is a natural number.
  \<open>py\<close> turns an ASCII literal of the source into such a sequence.
\<close>

type_synonym pystr = "nat list"

definition py :: "string \<Rightarrow> pystr" where
  "py s = map of_char s"

datatype pyerror = ValueError | TypeError | KeyError

text \<open>
  The characters that \<open>str.strip()\<close>, \<open>str.split()\<close> and the pattern \<open>\s\<close> of \<open>re\<close> treat as
  white space (CPython's \<open>Py_UNICODE_ISSPACE\<close>).
\<close>

definition is_space :: "nat \<Rightarrow> bool" where
  "is_space c = (c \<in> set [9, 10, 11, 12, 13, 28, 29, 30, 31, 32, 133, 160, 5760,
      8192, 8193, 8194, 8195, 8196, 8197, 8198, 8199, 8200, 8201, 8202,
      8232, 8233, 8239, 8287, 12288])"

definition strip :: "pystr \<Rightarrow> pystr" where
  "strip s = rev (dropWhile is_space (rev (dropWhile is_space s)))"

text \<open>\<open>s.replace(old, new)\<close> for one-character \<open>old\<close> and \<open>new\<close>.\<close>

definition replace_char :: "nat \<Rightarrow> nat \<Rightarrow> pystr \<Rightarrow> pystr" where
  "replace_char old new s = map (\<lambda>c. if c = old then new else c) s"

text \<open>\<open>s.replace(c, '')\<close> for a one-character \<open>c\<close>.\<close>

definition remove_char :: "nat \<Rightarrow> pystr \<Rightarrow> pystr" where
  "remove_char c s = filter (\<lambda>d. d \<noteq> c) s"

text \<open>\<open>re.sub(r'\s+', '', s)\<close>: every run of white space is deleted.\<close>

definition remove_spaces :: "pystr \<Rightarrow> pystr" where
  "remove_spaces s = filter (\<lambda>c. \<not> is_space c) s"

text \<open>
  \<open>s.split()\<close>: the maximal runs of non-space characters, in order. The first argument
  is the word being read.
\<close>

fun split_acc :: "pystr \<Rightarrow> pystr \<Rightarrow> pystr list" where
  "split_acc w [] = (if w = [] then [] else [w])"
| "split_acc w (c # cs) =
     (if is_space c then (if w = [] then split_acc [] cs else w # split_acc [] cs)
      else split_acc (w @ [c]) cs)"

definition split :: "pystr \<Rightarrow> pystr list" where
  "split s = split_acc [] s"

text \<open>\<open>' '.join(ws)\<close>.\<close>

fun join_space :: "pystr list \<Rightarrow> pystr" where
  "join_space [] = []"
| "join_space [w] = w"
| "join_space (w # v # ws) = w @ [32] @ join_space (v # ws)"

text \<open>\<open>needle in hay\<close> on strings: \<open>needle\<close> occurs as a contiguous run of \<open>hay\<close>.\<close>

fun py_in :: "pystr \<Rightarrow> pystr \<Rightarrow> bool" where
  "py_in needle [] = (needle = [])"
| "py_in needle (c # cs) = (prefix needle (c # cs) \<or> py_in needle cs)"

text \<open>\<open>str(n)\<close> for an integer: decimal digits, with a minus sign when negative.\<close>

fun str_nat :: "nat \<Rightarrow> pystr" where
  "str_nat n = (if n < 10 then [48 + n] else str_nat (n div 10) @ [48 + n mod 10])"

declare str_nat.simps [simp del]

definition str_int :: "int \<Rightarrow> pystr" where
  "str_int i = (if i < 0 then 45 # str_nat (nat (- i)) else str_nat (nat i))"

text \<open>
  The parts of the Python runtime whose tables are not in the repository: the Unicode
  case mappings behind \<open>str.lower()\<close> and \<open>str.upper()\<close>, and the parser behind \<open>int(s)\<close>
  for a string (\<open>None\<close> where it raises \<open>ValueError\<close>). Every function that calls one of
  them takes the runtime as its first argument.
\<close>

record pyrt =
  str_lower :: "pystr \<Rightarrow> pystr"
  str_upper :: "pystr \<Rightarrow> pystr"
  int_of_str :: "pystr \<Rightarrow> int option"

text \<open>
  The value of a worksheet cell. Besides \<open>None\<close>, strings, integers and booleans a cell
  may hold another object (a float, a date); the program only ever applies \<open>str\<close>,
  truth testing and \<open>int\<close> to a cell value, so such an object is given by the results of
  these three operations.
\<close>

datatype cell =
    CNone
  | CStr pystr
  | CInt int
  | CBool bool
  | CObj pystr bool "pyerror + int"

fun py_str :: "cell \<Rightarrow> pystr" where
  "py_str CNone = py ''None''"
| "py_str (CStr s) = s"
| "py_str (CInt i) = str_int i"
| "py_str (CBool b) = (if b then py ''True'' else py ''False'')"
| "py_str (CObj s t i) = s"

fun truthy :: "cell \<Rightarrow> bool" where
  "truthy CNone = False"
| "truthy (CStr s) = (s \<noteq> [])"
| "truthy (CInt i) = (i \<noteq> 0)"
| "truthy (CBool b) = b"
| "truthy (CObj s t i) = t"

fun py_int :: "pyrt \<Rightarrow> cell \<Rightarrow> pyerror + int" where
  "py_int rt CNone = Inl TypeError"
| "py_int rt (CStr s) = (case int_of_str rt s of None \<Rightarrow> Inl ValueError | Some i \<Rightarrow> Inr i)"
| "py_int rt (CInt i) = Inr i"
| "py_int rt (CBool b) = Inr (if b then 1 else 0)"
| "py_int rt (CObj s t i) = i"

subsection \<open>An ASCII runtime\<close>

text \<open>
  A runtime that agrees with Python on ASCII text: case mapping of the letters A to Z,
  and \<open>int\<close> of a decimal literal surrounded by white space: an optional sign and digits
  0 to 9, where single underscores may stand between digits. It is the runtime of the
  concrete examples below.
\<close>

definition ascii_lower :: "pystr \<Rightarrow> pystr" where
  "ascii_lower s = map (\<lambda>c. if 65 \<le> c \<and> c \<le> 90 then c + 32 else c) s"

definition ascii_upper :: "pystr \<Rightarrow> pystr" where
  "ascii_upper s = map (\<lambda>c. if 97 \<le> c \<and> c \<le> 122 then c - 32 else c) s"

text \<open>
  The value of a run of digits; \<open>after_digit\<close> tells that the character before was a
  digit, which an underscore and the end of the text require.
\<close>

fun digits_value :: "int \<Rightarrow> bool \<Rightarrow> pystr \<Rightarrow> int option" where
  "digits_value acc after_digit [] = (if after_digit then Some acc else None)"
| "digits_value acc after_digit (c # cs) =
     (if 48 \<le> c \<and> c \<le> 57 then digits_value (10 * acc + int (c - 48)) True cs
      else if c = 95 \<and> after_digit then digits_value acc False cs
      else None)"

definition ascii_int :: "pystr \<Rightarrow> int option" where
  "ascii_int s =
     (case strip s of
        [] \<Rightarrow> None
      | c # cs \<Rightarrow>
          if c = 45 then map_option uminus (digits_value 0 False cs)
          else if c = 43 then digits_value 0 False cs
          else digits_value 0 False (c # cs))"

definition ascii_rt :: pyrt where
  "ascii_rt = \<lparr>str_lower = ascii_lower, str_upper = ascii_upper, int_of_str = ascii_int\<rparr>"

section \<open>TextNormalizer\<close>

text \<open>
  \<open>normalize_standard\<close>: \<open>None\<close> gives the empty string; otherwise strip, the two
  \<open>replace\<close> calls (in the source both replace U+06CC by U+06CC and U+06A9 by U+06A9),
  removal of all white space, and \<open>lower()\<close>.
\<close>

definition normalize_standard :: "pyrt \<Rightarrow> pystr option \<Rightarrow> pystr" where
  "normalize_standard rt text =
     (case text of
        None \<Rightarrow> []
      | Some t \<Rightarrow>
          str_lower rt (remove_spaces (replace_char 1705 1705 (replace_char 1740 1740 (strip t)))))"

text \<open>
  \<open>normalize_pnt_axis\<close>: line breaks become spaces, \<open>upper()\<close>, then spaces and hyphens
  are removed. The argument is a cell value, converted with \<open>str\<close>.
\<close>

definition normalize_pnt_axis :: "pyrt \<Rightarrow> cell \<Rightarrow> pystr" where
  "normalize_pnt_axis rt text =
     (case text of
        CNone \<Rightarrow> []
      | v \<Rightarrow> remove_char 45 (remove_char 32
              (str_upper rt (replace_char 13 32 (replace_char 10 32 (py_str v))))))"

text \<open>
  \<open>multiline_to_single\<close>: line breaks become spaces, runs of white space collapse to
  one space, and the ends are stripped.
\<close>

definition multiline_to_single :: "pystr option \<Rightarrow> pystr" where
  "multiline_to_single text =
     (case text of
        None \<Rightarrow> []
      | Some t \<Rightarrow> strip (join_space (split (replace_char 13 32 (replace_char 10 32 t)))))"

section \<open>Worksheets and configuration\<close>

text \<open>
  The view of an openpyxl worksheet that the program reads: \<open>ws.max_row\<close>,
  \<open>ws.cell(row, col).value\<close> and \<open>ws.row_dimensions[row].outlineLevel\<close>. Rows and columns
  are numbered from 1; row and column numbers come from loops over \<open>range(1, ...)\<close> and
  from the configured column numbers.
\<close>

record worksheet =
  max_row :: nat
  cell_value :: "nat \<Rightarrow> nat \<Rightarrow> cell"
  outlineLevel :: "nat \<Rightarrow> int option"

text \<open>
  The fields of \<open>PMSConfig\<close> that the modelled functions read. \<open>PNT.ROW_START\<close> and
  \<open>PNT.ROW_END\<close> are 7 and 31 when the configuration is loaded; the user interface
  overwrites them with the range it detects.
\<close>

record config =
  AXIS_RANGE_START :: int
  AXIS_RANGE_END :: int
  PNT_ITEM_COL :: nat
  PNT_QUANTITY_COL :: nat
  PNT_M_VALUE_COL :: nat
  PNT_AXIS_SEARCH_COLS :: "nat list"
  PNT_ROW_START :: nat
  PNT_ROW_END :: nat
  PMS_TEXT_COL :: nat
  LEVEL_1_PATTERN :: pystr
  LEVEL_3_TEXT :: pystr
  LEVEL_4_TEXT :: pystr
  TARGET_LEVEL :: int

text \<open>\<open>Hierarchy.get_search_path\<close>: the level-1 text is the pattern, a space and the axis number.\<close>

definition get_search_path :: "config \<Rightarrow> int \<Rightarrow> (int \<times> pystr) list" where
  "get_search_path cfg mohor_num =
     [(1, LEVEL_1_PATTERN cfg @ [32] @ str_int mohor_num),
      (3, LEVEL_3_TEXT cfg),
      (4, LEVEL_4_TEXT cfg)]"

section \<open>AxisExtractor\<close>

text \<open>
  The inner loop of \<open>_search_pattern\<close>: the first axis number of the range whose pattern
  \<open>prefix + str(n)\<close> occurs in the normalized cell text.
\<close>

fun first_axis :: "pystr \<Rightarrow> pystr \<Rightarrow> int list \<Rightarrow> int option" where
  "first_axis pattern_prefix normalized [] = None"
| "first_axis pattern_prefix normalized (n # ns) =
     (if py_in (pattern_prefix @ str_int n) normalized then Some n
      else first_axis pattern_prefix normalized ns)"

text \<open>The outer loop of \<open>_search_pattern\<close> over the columns; a falsy cell is skipped.\<close>

fun search_cols :: "pyrt \<Rightarrow> config \<Rightarrow> worksheet \<Rightarrow> nat \<Rightarrow> pystr \<Rightarrow> nat list \<Rightarrow> int option" where
  "search_cols rt cfg ws row_idx pattern_prefix [] = None"
| "search_cols rt cfg ws row_idx pattern_prefix (col # cols) =
     (let v = cell_value ws row_idx col in
      if \<not> truthy v then search_cols rt cfg ws row_idx pattern_prefix cols
      else
        (case first_axis pattern_prefix (normalize_pnt_axis rt v)
                [AXIS_RANGE_START cfg .. AXIS_RANGE_END cfg - 1] of
           Some n \<Rightarrow> Some n
         | None \<Rightarrow> search_cols rt cfg ws row_idx pattern_prefix cols))"

definition search_pattern :: "pyrt \<Rightarrow> config \<Rightarrow> worksheet \<Rightarrow> nat \<Rightarrow> pystr \<Rightarrow> int option" where
  "search_pattern rt cfg ws row_idx pattern_prefix =
     search_cols rt cfg ws row_idx pattern_prefix (PNT_AXIS_SEARCH_COLS cfg)"

text \<open>
  \<open>extract_from_row\<close>: the result of the AXIS pass is returned when it is truthy
  (\<open>if mohor:\<close>), otherwise the result of the S pass.
\<close>

definition extract_from_row :: "pyrt \<Rightarrow> config \<Rightarrow> worksheet \<Rightarrow> nat \<Rightarrow> int option" where
  "extract_from_row rt cfg ws row_idx =
     (case search_pattern rt cfg ws row_idx (py ''AXIS'') of
        Some mohor \<Rightarrow>
          if mohor \<noteq> 0 then Some mohor else search_pattern rt cfg ws row_idx (py ''S'')
      | None \<Rightarrow> search_pattern rt cfg ws row_idx (py ''S''))"

section \<open>PMSHierarchySearcher\<close>

definition get_outline_level :: "worksheet \<Rightarrow> nat \<Rightarrow> int" where
  "get_outline_level ws row_idx =
     (case outlineLevel ws row_idx of
        None \<Rightarrow> 0
      | Some l \<Rightarrow> if l \<noteq> 0 then l else 0)"

text \<open>
  The loop of \<open>_find_parent_section\<close> over the remaining row numbers, with the state
  \<open>current_idx\<close> and \<open>parent_row\<close>. With the rows used up, \<open>parent_row + 1\<close> on a
  \<open>parent_row\<close> that is still \<open>None\<close> raises \<open>TypeError\<close>.
\<close>

fun find_parent_loop ::
  "config \<Rightarrow> worksheet \<Rightarrow> (int \<times> pystr) list \<Rightarrow> nat \<Rightarrow> nat option \<Rightarrow> nat list
     \<Rightarrow> pyerror + (nat option \<times> nat option)" where
  "find_parent_loop cfg ws search_path current_idx parent_row [] =
     (if current_idx < length search_path then Inr (None, None)
      else (case parent_row of
              None \<Rightarrow> Inl TypeError
            | Some p \<Rightarrow> Inr (Some p, Some (p + 1))))"
| "find_parent_loop cfg ws search_path current_idx parent_row (row_idx # rest) =
     (if current_idx \<ge> length search_path then Inr (parent_row, Some row_idx)
      else
        (let level = get_outline_level ws row_idx;
             v = cell_value ws row_idx (PMS_TEXT_COL cfg)
         in if v = CNone then find_parent_loop cfg ws search_path current_idx parent_row rest
            else
              (let cell_text = strip (py_str v);
                   target_level = fst (search_path ! current_idx);
                   target_text = snd (search_path ! current_idx)
               in if level = target_level \<and> py_in target_text cell_text
                  then find_parent_loop cfg ws search_path (current_idx + 1) (Some row_idx) rest
                  else find_parent_loop cfg ws search_path current_idx parent_row rest)))"

definition find_parent_section ::
  "config \<Rightarrow> worksheet \<Rightarrow> (int \<times> pystr) list \<Rightarrow> pyerror + (nat option \<times> nat option)" where
  "find_parent_section cfg ws search_path =
     find_parent_loop cfg ws search_path 0 None [1 ..< max_row ws + 1]"

text \<open>An entry of the list returned by \<open>_extract_target_items\<close>: keys row, level, text.\<close>

record found_item =
  item_row :: nat
  item_level :: int
  item_text :: pystr

text \<open>The loop of \<open>_extract_target_items\<close>, with the list \<open>found_items\<close> built so far.\<close>

fun extract_loop ::
  "config \<Rightarrow> worksheet \<Rightarrow> int \<Rightarrow> int \<Rightarrow> found_item list \<Rightarrow> nat list \<Rightarrow> found_item list" where
  "extract_loop cfg ws parent_level target_level found_items [] = found_items"
| "extract_loop cfg ws parent_level target_level found_items (row_idx # rest) =
     (let level = get_outline_level ws row_idx;
          v = cell_value ws row_idx (PMS_TEXT_COL cfg)
      in if v = CNone then extract_loop cfg ws parent_level target_level found_items rest
         else if level \<le> parent_level then found_items
         else if level = target_level
         then extract_loop cfg ws parent_level target_level
                (found_items @ [\<lparr>item_row = row_idx, item_level = level,
                                  item_text = strip (py_str v)\<rparr>]) rest
         else extract_loop cfg ws parent_level target_level found_items rest)"

definition extract_target_items ::
  "config \<Rightarrow> worksheet \<Rightarrow> nat \<Rightarrow> nat \<Rightarrow> int \<Rightarrow> found_item list" where
  "extract_target_items cfg ws parent_row start_row target_level =
     extract_loop cfg ws (get_outline_level ws parent_row) target_level []
       [start_row ..< max_row ws + 1]"

text \<open>
  \<open>find_items\<close>. A start row of \<open>None\<close> beside a parent row is never produced by
  \<open>_find_parent_section\<close>; \<open>range(None, ...)\<close> would raise \<open>TypeError\<close>.
\<close>

definition find_items ::
  "config \<Rightarrow> worksheet \<Rightarrow> (int \<times> pystr) list \<Rightarrow> int \<Rightarrow> pyerror + found_item list" where
  "find_items cfg ws search_path target_level =
     (case find_parent_section cfg ws search_path of
        Inl e \<Rightarrow> Inl e
      | Inr (None, search_start) \<Rightarrow> Inr []
      | Inr (Some parent_row, None) \<Rightarrow> Inl TypeError
      | Inr (Some parent_row, Some search_start) \<Rightarrow>
          Inr (extract_target_items cfg ws parent_row search_start target_level))"

text \<open>The loop of \<open>find_last_level5_in_section\<close>, with \<open>last_level5\<close> so far.\<close>

fun last_level5_loop ::
  "config \<Rightarrow> worksheet \<Rightarrow> int \<Rightarrow> nat option \<Rightarrow> nat list \<Rightarrow> nat option" where
  "last_level5_loop cfg ws section_level last_level5 [] = last_level5"
| "last_level5_loop cfg ws section_level last_level5 (row_idx # rest) =
     (let level = get_outline_level ws row_idx
      in if level \<le> section_level then last_level5
         else if level = TARGET_LEVEL cfg
         then last_level5_loop cfg ws section_level (Some row_idx) rest
         else last_level5_loop cfg ws section_level last_level5 rest)"

text \<open>
  \<open>find_last_level5_in_section\<close>, on the worksheet that \<open>load_workbook\<close> and the sheet
  name give.
\<close>

definition find_last_level5_in_section ::
  "config \<Rightarrow> worksheet \<Rightarrow> int \<Rightarrow> pyerror + nat option" where
  "find_last_level5_in_section cfg ws mohor_num =
     (case find_parent_section cfg ws (get_search_path cfg mohor_num) of
        Inl e \<Rightarrow> Inl e
      | Inr (None, search_start) \<Rightarrow> Inr None
      | Inr (Some parent_row, None) \<Rightarrow> Inl TypeError
      | Inr (Some parent_row, Some search_start) \<Rightarrow>
          Inr (last_level5_loop cfg ws (get_outline_level ws parent_row) None
                 [search_start ..< max_row ws + 1]))"

section \<open>PNTItemExtractor\<close>

text \<open>The dictionary that \<open>_extract_row_data\<close> returns for a row.\<close>

record item_data =
  pnt_row :: nat
  quantity :: int
  m_value :: cell
  original :: pystr
  single_line :: pystr
  normalized :: pystr
  axis :: "int option"

text \<open>
  \<open>_extract_row_data\<close>: \<open>None\<close> for a row without item text or with an empty normalized
  text; the quantity is \<open>int(quantity) if quantity else 0\<close>, and \<open>int\<close> may raise.
\<close>

definition extract_row_data ::
  "pyrt \<Rightarrow> config \<Rightarrow> worksheet \<Rightarrow> nat \<Rightarrow> pyerror + item_data option" where
  "extract_row_data rt cfg ws row =
     (let item_value = cell_value ws row (PNT_ITEM_COL cfg) in
      if \<not> truthy item_value then Inr None
      else
        (let axis_num = extract_from_row rt cfg ws row;
             original_text = strip (py_str item_value);
             single = multiline_to_single (Some original_text);
             norm = normalize_standard rt (Some single)
         in if norm = [] then Inr None
            else
              (let qty = cell_value ws row (PNT_QUANTITY_COL cfg);
                   m = cell_value ws row (PNT_M_VALUE_COL cfg)
               in case (if truthy qty then py_int rt qty else Inr 0) of
                    Inl e \<Rightarrow> Inl e
                  | Inr q \<Rightarrow>
                      Inr (Some \<lparr>pnt_row = row, quantity = q, m_value = m,
                                 original = original_text, single_line = single,
                                 normalized = norm, axis = axis_num\<rparr>))))"

text \<open>
  \<open>items_by_axis\<close> is a dictionary from axis number to a list, kept here in insertion
  order. \<open>group_append\<close> is the pair of statements that creates the list of a new axis
  and appends the item to the list of its axis.
\<close>

fun group_append ::
  "int \<Rightarrow> item_data \<Rightarrow> (int \<times> item_data list) list \<Rightarrow> (int \<times> item_data list) list" where
  "group_append axis_num d [] = [(axis_num, [d])]"
| "group_append axis_num d ((k, ds) # groups) =
     (if k = axis_num then (k, ds @ [d]) # groups
      else (k, ds) # group_append axis_num d groups)"

text \<open>An entry of the list \<open>unidentified\<close>: keys row and item.\<close>

record unidentified_item =
  un_row :: nat
  un_item :: pystr

text \<open>
  The loop of \<open>extract_all_items\<close> over the rows \<open>range(PNT.ROW_START, PNT.ROW_END)\<close>, with the
  state \<open>items_by_axis\<close> and \<open>unidentified\<close>. An exception of a row ends the loop.
\<close>

fun extract_all_loop ::
  "pyrt \<Rightarrow> config \<Rightarrow> worksheet \<Rightarrow> (int \<times> item_data list) list \<Rightarrow> unidentified_item list
     \<Rightarrow> nat list \<Rightarrow> pyerror + ((int \<times> item_data list) list \<times> unidentified_item list)" where
  "extract_all_loop rt cfg ws items_by_axis unidentified [] = Inr (items_by_axis, unidentified)"
| "extract_all_loop rt cfg ws items_by_axis unidentified (row # rest) =
     (case extract_row_data rt cfg ws row of
        Inl e \<Rightarrow> Inl e
      | Inr None \<Rightarrow> extract_all_loop rt cfg ws items_by_axis unidentified rest
      | Inr (Some d) \<Rightarrow>
          (case axis d of
             None \<Rightarrow>
               extract_all_loop rt cfg ws items_by_axis
                 (unidentified @ [\<lparr>un_row = row, un_item = single_line d\<rparr>]) rest
           | Some axis_num \<Rightarrow>
               extract_all_loop rt cfg ws (group_append axis_num d items_by_axis)
                 unidentified rest))"

text \<open>
  \<open>extract_all_items\<close>, on the loaded worksheet: the two collections built by the loop.
  The third component of the source's result, the cleaned value of the G2 cell, is
  computed before the loop and does not depend on it.
\<close>

definition extract_all_items ::
  "pyrt \<Rightarrow> config \<Rightarrow> worksheet
     \<Rightarrow> pyerror + ((int \<times> item_data list) list \<times> unidentified_item list)" where
  "extract_all_items rt cfg ws =
     extract_all_loop rt cfg ws [] [] [PNT_ROW_START cfg ..< PNT_ROW_END cfg]"

section \<open>UpdatePlanner\<close>

text \<open>A location of the structure index: keys mohor, row, level, original_text.\<close>

record location =
  loc_mohor :: pystr
  loc_row :: nat
  loc_level :: int
  loc_original_text :: pystr

text \<open>
  An update is a dictionary whose set of keys differs between existing and new items, so
  it is a map from key names to values; a value is a scalar or the list of rows.
\<close>

datatype pyval = VCell cell | VRows "nat list"

type_synonym update = "string \<rightharpoonup> pyval"

record warning =
  w_item :: pystr
  w_mohor :: pystr
  w_needed :: int
  w_available :: int
  w_deficit :: int

record not_found_entry =
  nf_item :: pystr
  nf_mohor :: pystr
  nf_reason :: pystr

text \<open>
  The result dictionary of \<open>_match_item\<close>, by its status: existing (with the warning
  when the key is present), new, or not_found.
\<close>

datatype match_result =
    Existing update "warning option"
  | New update
  | NotFound not_found_entry

text \<open>\<open>f"..."\<close> literals of the planner: the axis name and the label of a new item.\<close>

definition mohor_name_of :: "int \<Rightarrow> pystr" where
  "mohor_name_of mohor_num = [1605, 1581, 1608, 1585, 32] @ str_int mohor_num"

definition new_item_label :: "pystr \<Rightarrow> pystr" where
  "new_item_label s = [127381, 32] @ s"

definition not_found_reason :: pystr where
  "not_found_reason = [1605, 1581, 1608, 1585, 32, 1740, 1575, 32, 76, 101, 118, 101, 108, 32,
     53, 32, 1583, 1585, 32, 80, 77, 83, 32, 1740, 1575, 1601, 1578, 32, 1606, 1588, 1583]"

definition create_existing_update ::
  "pystr \<Rightarrow> item_data \<Rightarrow> location list \<Rightarrow> cell \<Rightarrow> match_result" where
  "create_existing_update mohor_name pnt_data locations g2_value =
     (let needed_quantity = quantity pnt_data;
          current_quantity = int (length locations);
          upd = map_of
            [(''mohor'', VCell (CStr mohor_name)),
             (''item_text'', VCell (CStr (single_line pnt_data))),
             (''existing_rows'', VRows (map loc_row locations)),
             (''needed_quantity'', VCell (CInt needed_quantity)),
             (''a_value'', VCell (CStr (single_line pnt_data))),
             (''e_value'', VCell g2_value),
             (''n_value'', VCell (m_value pnt_data)),
             (''is_new_item'', VCell (CBool False))]
      in if current_quantity < needed_quantity
         then Existing upd
                (Some \<lparr>w_item = single_line pnt_data, w_mohor = mohor_name,
                       w_needed = needed_quantity, w_available = current_quantity,
                       w_deficit = needed_quantity - current_quantity\<rparr>)
         else Existing upd None)"

text \<open>\<open>_create_new_update\<close>; \<open>if last_level5:\<close> is a truth test of a row number or \<open>None\<close>.\<close>

definition create_new_update ::
  "config \<Rightarrow> worksheet \<Rightarrow> pystr \<Rightarrow> int \<Rightarrow> item_data \<Rightarrow> cell \<Rightarrow> pyerror + match_result" where
  "create_new_update cfg ws mohor_name mohor_num pnt_data g2_value =
     (case find_last_level5_in_section cfg ws mohor_num of
        Inl e \<Rightarrow> Inl e
      | Inr last_level5 \<Rightarrow>
          (let not_found = NotFound \<lparr>nf_item = single_line pnt_data, nf_mohor = mohor_name,
                                     nf_reason = not_found_reason\<rparr>
           in case last_level5 of
                None \<Rightarrow> Inr not_found
              | Some r \<Rightarrow>
                  if r \<noteq> 0
                  then Inr (New (map_of
                    [(''mohor'', VCell (CStr mohor_name)),
                     (''item_text'', VCell (CStr (new_item_label (single_line pnt_data)))),
                     (''existing_rows'', VRows [r]),
                     (''needed_quantity'', VCell (CInt (quantity pnt_data))),
                     (''a_value'', VCell (CStr (single_line pnt_data))),
                     (''e_value'', VCell g2_value),
                     (''n_value'', VCell (m_value pnt_data)),
                     (''g_value'', VCell (m_value pnt_data)),
                     (''is_new_item'', VCell (CBool True))]))
                  else Inr not_found))"

definition match_item ::
  "config \<Rightarrow> worksheet \<Rightarrow> pystr \<Rightarrow> int \<Rightarrow> item_data \<Rightarrow> (pystr \<rightharpoonup> location list) \<Rightarrow> cell
     \<Rightarrow> pyerror + match_result" where
  "match_item cfg ws mohor_name mohor_num pnt_data item_locations g2_value =
     (case item_locations (normalized pnt_data) of
        Some locs \<Rightarrow>
          (let mohor_locations = filter (\<lambda>loc. loc_mohor loc = mohor_name) locs
           in if mohor_locations \<noteq> []
              then Inr (create_existing_update mohor_name pnt_data mohor_locations g2_value)
              else create_new_update cfg ws mohor_name mohor_num pnt_data g2_value)
      | None \<Rightarrow> create_new_update cfg ws mohor_name mohor_num pnt_data g2_value)"

text \<open>
  The two loops of \<open>plan_updates\<close>, with the state \<open>updates\<close>, \<open>not_found\<close> and \<open>warnings\<close>:
  the inner one over the items of an axis, the outer one over \<open>items_by_axis.items()\<close>.
\<close>

type_synonym plan = "update list \<times> not_found_entry list \<times> warning list"

fun plan_items ::
  "config \<Rightarrow> worksheet \<Rightarrow> (pystr \<rightharpoonup> location list) \<Rightarrow> cell \<Rightarrow> int \<Rightarrow> plan \<Rightarrow> item_data list
     \<Rightarrow> pyerror + plan" where
  "plan_items cfg ws item_locations g2_value mohor_num acc [] = Inr acc"
| "plan_items cfg ws item_locations g2_value mohor_num (updates, not_found, warnings)
       (pnt_data # rest) =
     (case match_item cfg ws (mohor_name_of mohor_num) mohor_num pnt_data item_locations
             g2_value of
        Inl e \<Rightarrow> Inl e
      | Inr (Existing upd w) \<Rightarrow>
          plan_items cfg ws item_locations g2_value mohor_num
            (updates @ [upd], not_found,
             (case w of None \<Rightarrow> warnings | Some w' \<Rightarrow> warnings @ [w'])) rest
      | Inr (New upd) \<Rightarrow>
          plan_items cfg ws item_locations g2_value mohor_num
            (updates @ [upd], not_found, warnings) rest
      | Inr (NotFound err) \<Rightarrow>
          plan_items cfg ws item_locations g2_value mohor_num
            (updates, not_found @ [err], warnings) rest)"

fun plan_axes ::
  "config \<Rightarrow> worksheet \<Rightarrow> (pystr \<rightharpoonup> location list) \<Rightarrow> cell \<Rightarrow> plan
     \<Rightarrow> (int \<times> item_data list) list \<Rightarrow> pyerror + plan" where
  "plan_axes cfg ws item_locations g2_value acc [] = Inr acc"
| "plan_axes cfg ws item_locations g2_value acc ((mohor_num, items) # rest) =
     (case plan_items cfg ws item_locations g2_value mohor_num acc items of
        Inl e \<Rightarrow> Inl e
      | Inr acc' \<Rightarrow> plan_axes cfg ws item_locations g2_value acc' rest)"

definition plan_updates ::
  "config \<Rightarrow> worksheet \<Rightarrow> (pystr \<rightharpoonup> location list) \<Rightarrow> (int \<times> item_data list) list \<Rightarrow> cell
     \<Rightarrow> pyerror + plan" where
  "plan_updates cfg ws item_locations items_by_axis g2_value =
     plan_axes cfg ws item_locations g2_value ([], [], []) items_by_axis"

section \<open>COMUpdater: the dictionary reads\<close>

text \<open>
  \<open>_process_new_item\<close> and \<open>_process_existing_item\<close> start by reading keys of the update
  with \<open>update[key]\<close>, which raises \<open>KeyError\<close> on a missing key; what follows drives
  Excel and is outside this model. \<open>_process_updates\<close> chooses between the two with
  \<open>update.get('is_new_item')\<close>.
\<close>

definition new_item_keys :: "string list" where
  "new_item_keys = [''item_text'', ''existing_rows'', ''needed_quantity'', ''a_value'',
     ''e_value'', ''g_value'', ''n_value'']"

definition existing_item_keys :: "string list" where
  "existing_item_keys = [''item_text'', ''existing_rows'', ''needed_quantity'', ''a_value'',
     ''e_value'', ''n_value'']"

fun read_keys :: "update \<Rightarrow> string list \<Rightarrow> pyerror + pyval list" where
  "read_keys u [] = Inr []"
| "read_keys u (k # ks) =
     (case u k of
        None \<Rightarrow> Inl KeyError
      | Some v \<Rightarrow> (case read_keys u ks of Inl e \<Rightarrow> Inl e | Inr vs \<Rightarrow> Inr (v # vs)))"

text \<open>The truth value of \<open>update.get(key)\<close>; a list is true when it is not empty.\<close>

definition get_truthy :: "update \<Rightarrow> string \<Rightarrow> bool" where
  "get_truthy u k =
     (case u k of
        None \<Rightarrow> False
      | Some (VCell c) \<Rightarrow> truthy c
      | Some (VRows rs) \<Rightarrow> rs \<noteq> [])"

definition keys_read :: "update \<Rightarrow> string list" where
  "keys_read u = (if get_truthy u ''is_new_item'' then new_item_keys else existing_item_keys)"

definition process_update_reads :: "update \<Rightarrow> pyerror + pyval list" where
  "process_update_reads u = read_keys u (keys_read u)"

section \<open>Example documents\<close>

text \<open>
  A worksheet given by its rows, first row first: the outline level of the row and the
  cells that hold a value, by column. Every other cell is empty.
\<close>

definition sheet :: "(int option \<times> (nat \<times> cell) list) list \<Rightarrow> worksheet" where
  "sheet rows =
     \<lparr>max_row = length rows,
      cell_value = (\<lambda>r c.
        if 1 \<le> r \<and> r \<le> length rows
        then (case map_of (snd (rows ! (r - 1))) c of None \<Rightarrow> CNone | Some v \<Rightarrow> v)
        else CNone),
      outlineLevel = (\<lambda>r. if 1 \<le> r \<and> r \<le> length rows then fst (rows ! (r - 1)) else None)\<rparr>"

text \<open>The configuration of the examples: the defaults of the source, with ASCII texts.\<close>

definition cfg_ex :: config where
  "cfg_ex =
     \<lparr>AXIS_RANGE_START = 19, AXIS_RANGE_END = 46,
      PNT_ITEM_COL = 3, PNT_QUANTITY_COL = 9, PNT_M_VALUE_COL = 13,
      PNT_AXIS_SEARCH_COLS = [3, 4, 5], PNT_ROW_START = 7, PNT_ROW_END = 31,
      PMS_TEXT_COL = 1,
      LEVEL_1_PATTERN = py ''Axis'', LEVEL_3_TEXT = py ''GLASS FLAKE'',
      LEVEL_4_TEXT = py ''COAT'', TARGET_LEVEL = 5\<rparr>"

text \<open>
  A target document with one section for axis 19. Row 5 is blank and has no outline
  level; row 7 is the next level-4 heading, and row 8 a leaf below it.
\<close>

definition pms_blank :: worksheet where
  "pms_blank = sheet
     [(Some 1, [(1, CStr (py ''Axis 19''))]),
      (Some 3, [(1, CStr (py ''GLASS FLAKE''))]),
      (Some 4, [(1, CStr (py ''COAT''))]),
      (Some 5, [(1, CStr (py ''Primer Coat''))]),
      (None, []),
      (Some 5, [(1, CStr (py ''Primer Coat''))]),
      (Some 4, [(1, CStr (py ''OTHER''))]),
      (Some 5, [(1, CStr (py ''Tie Coat''))])]"

text \<open>A target document in which the section of axis 19 occurs twice.\<close>

definition pms_twice :: worksheet where
  "pms_twice = sheet
     [(Some 1, [(1, CStr (py ''Axis 19''))]),
      (Some 3, [(1, CStr (py ''GLASS FLAKE''))]),
      (Some 4, [(1, CStr (py ''COAT''))]),
      (Some 5, [(1, CStr (py ''Primer Coat''))]),
      (Some 1, [(1, CStr (py ''Axis 19''))]),
      (Some 3, [(1, CStr (py ''GLASS FLAKE''))]),
      (Some 4, [(1, CStr (py ''COAT''))]),
      (Some 5, [(1, CStr (py ''Tie Coat''))])]"

text \<open>
  A source document. Rows 1 to 6 are the heading block. Row 7 names its axis with the
  AXIS form, row 8 with the S form in another column and has no quantity; the item text
  of row 9 is white space only; rows 10 and 11 name no axis of the configured range.
\<close>

definition pnt_ex :: worksheet where
  "pnt_ex = sheet
     [(None, []), (None, []), (None, []), (None, []), (None, []), (None, []),
      (None, [(3, CStr (py ''Primer Coat AXIS19'')), (9, CInt 3), (13, CInt 12)]),
      (None, [(3, CStr (py ''Tie Coat'')), (4, CStr (py ''S-20'')), (13, CStr (py ''x''))]),
      (None, [(3, CStr (py ''   '')), (9, CInt 1)]),
      (None, [(3, CStr (py ''Top Coat'')), (9, CInt 2)]),
      (None, [(3, CStr (py ''Seal AXIS 50'')), (9, CInt 1)])]"

text \<open>A source document whose only item has a quantity cell with the text \<open>abc\<close>.\<close>

definition pnt_text_quantity :: worksheet where
  "pnt_text_quantity = sheet
     [(None, []), (None, []), (None, []), (None, []), (None, []), (None, []),
      (None, [(3, CStr (py ''Primer Coat AXIS19'')), (9, CStr (py ''abc'')), (13, CInt 12)])]"

text \<open>
  A configuration whose axis range is 0 to 4 and whose axis columns are 3 and 4, and a
  source row that holds \<open>S3\<close> in column 3 and \<open>AXIS0\<close> in column 4.
\<close>

definition cfg_axis0 :: config where
  "cfg_axis0 = cfg_ex\<lparr>AXIS_RANGE_START := 0, AXIS_RANGE_END := 5,
     PNT_AXIS_SEARCH_COLS := [3, 4]\<rparr>"

definition pnt_axis0 :: worksheet where
  "pnt_axis0 = sheet
     [(None, []), (None, []), (None, []), (None, []), (None, []), (None, []),
      (None, [(3, CStr (py ''S3'')), (4, CStr (py ''AXIS0''))])]"

text \<open>
  A target document with the sections of axis 19 and axis 20, the structure index of its
  leaves, and source items: one present under axis 19 with quantity 3, one absent from
  the index, one whose key the index holds under axis 20 only, and one of axis 21, which
  has no section.
\<close>

definition pms_ex :: worksheet where
  "pms_ex = sheet
     [(Some 1, [(1, CStr (py ''Axis 19''))]),
      (Some 3, [(1, CStr (py ''GLASS FLAKE''))]),
      (Some 4, [(1, CStr (py ''COAT''))]),
      (Some 5, [(1, CStr (py ''Primer Coat''))]),
      (Some 5, [(1, CStr (py ''Primer Coat''))]),
      (Some 1, [(1, CStr (py ''Axis 20''))]),
      (Some 3, [(1, CStr (py ''GLASS FLAKE''))]),
      (Some 4, [(1, CStr (py ''COAT''))]),
      (Some 5, [(1, CStr (py ''Seal Coat''))])]"

definition index_ex :: "pystr \<rightharpoonup> location list" where
  "index_ex = map_of
     [(py ''primercoat'',
       [\<lparr>loc_mohor = mohor_name_of 19, loc_row = 4, loc_level = 5,
          loc_original_text = py ''Primer Coat''\<rparr>,
        \<lparr>loc_mohor = mohor_name_of 19, loc_row = 5, loc_level = 5,
          loc_original_text = py ''Primer Coat''\<rparr>]),
      (py ''sealcoat'',
       [\<lparr>loc_mohor = mohor_name_of 20, loc_row = 9, loc_level = 5,
          loc_original_text = py ''Seal Coat''\<rparr>])]"

definition item_ex :: "pystr \<Rightarrow> pystr \<Rightarrow> int \<Rightarrow> int \<Rightarrow> item_data" where
  "item_ex text key a q =
     \<lparr>pnt_row = 7, quantity = q, m_value = CInt 12, original = text, single_line = text,
      normalized = key, axis = Some a\<rparr>"

definition primer_item :: item_data where
  "primer_item = item_ex (py ''Primer Coat'') (py ''primercoat'') 19 3"

definition tie_item :: item_data where
  "tie_item = item_ex (py ''Tie Coat'') (py ''tiecoat'') 19 1"

definition seal_item :: item_data where
  "seal_item = item_ex (py ''Seal Coat'') (py ''sealcoat'') 19 1"

definition far_item :: item_data where
  "far_item = item_ex (py ''Tie Coat'') (py ''tiecoat'') 21 1"

text \<open>The updates that the planner is to produce for the first two example items.\<close>

definition primer_update :: update where
  "primer_update = map_of
     [(''mohor'', VCell (CStr (mohor_name_of 19))),
      (''item_text'', VCell (CStr (py ''Primer Coat''))),
      (''existing_rows'', VRows [4, 5]),
      (''needed_quantity'', VCell (CInt 3)),
      (''a_value'', VCell (CStr (py ''Primer Coat''))),
      (''e_value'', VCell (CStr (py ''G2''))),
      (''n_value'', VCell (CInt 12)),
      (''is_new_item'', VCell (CBool False))]"

definition tie_update :: update where
  "tie_update = map_of
     [(''mohor'', VCell (CStr (mohor_name_of 19))),
      (''item_text'', VCell (CStr (new_item_label (py ''Tie Coat'')))),
      (''existing_rows'', VRows [5]),
      (''needed_quantity'', VCell (CInt 1)),
      (''a_value'', VCell (CStr (py ''Tie Coat''))),
      (''e_value'', VCell (CStr (py ''G2''))),
      (''n_value'', VCell (CInt 12)),
      (''g_value'', VCell (CInt 12)),
      (''is_new_item'', VCell (CBool True))]"

text \<open>
  A target document in which row 5, at the target level, and row 6, without outline
  level, hold the empty string in the text cell, and a leaf follows in row 7.
\<close>

definition pms_empty_text :: worksheet where
  "pms_empty_text = sheet
     [(Some 1, [(1, CStr (py ''Axis 19''))]),
      (Some 3, [(1, CStr (py ''GLASS FLAKE''))]),
      (Some 4, [(1, CStr (py ''COAT''))]),
      (Some 5, [(1, CStr (py ''Primer Coat''))]),
      (Some 5, [(1, CStr [])]),
      (None, [(1, CStr [])]),
      (Some 5, [(1, CStr (py ''Tie Coat''))])]"

text \<open>
  A target document in which a blank row without outline level follows the level-4
  heading of axis 19, and the only leaf of the section comes after it.
\<close>

definition pms_late_leaf :: worksheet where
  "pms_late_leaf = sheet
     [(Some 1, [(1, CStr (py ''Axis 19''))]),
      (Some 3, [(1, CStr (py ''GLASS FLAKE''))]),
      (Some 4, [(1, CStr (py ''COAT''))]),
      (None, []),
      (Some 5, [(1, CStr (py ''Primer Coat''))])]"

text \<open>
  The structure indexes of the documents \<open>pms_blank\<close> and \<open>pms_late_leaf\<close>: the leaves that
  the enumeration finds in the section of axis 19.
\<close>

definition index_blank :: "pystr \<rightharpoonup> location list" where
  "index_blank = map_of
     [(py ''primercoat'',
       [\<lparr>loc_mohor = mohor_name_of 19, loc_row = 4, loc_level = 5,
          loc_original_text = py ''Primer Coat''\<rparr>,
        \<lparr>loc_mohor = mohor_name_of 19, loc_row = 6, loc_level = 5,
          loc_original_text = py ''Primer Coat''\<rparr>])]"

definition index_late_leaf :: "pystr \<rightharpoonup> location list" where
  "index_late_leaf = map_of
     [(py ''primercoat'',
       [\<lparr>loc_mohor = mohor_name_of 19, loc_row = 5, loc_level = 5,
          loc_original_text = py ''Primer Coat''\<rparr>])]"

section \<open>Reference formulations\<close>

text \<open>
  A row satisfies a constraint (level, text) of a search path when its text cell holds a
  value, its outline level is the level and the text occurs in the stripped cell text.
\<close>

definition row_matches :: "config \<Rightarrow> worksheet \<Rightarrow> int \<times> pystr \<Rightarrow> nat \<Rightarrow> bool" where
  "row_matches cfg ws c r =
     (cell_value ws r (PMS_TEXT_COL cfg) \<noteq> CNone
      \<and> get_outline_level ws r = fst c
      \<and> py_in (snd c) (strip (py_str (cell_value ws r (PMS_TEXT_COL cfg)))))"

text \<open>The first row of a list that satisfies a constraint, with the rows after it.\<close>

fun first_match ::
  "config \<Rightarrow> worksheet \<Rightarrow> int \<times> pystr \<Rightarrow> nat list \<Rightarrow> (nat \<times> nat list) option" where
  "first_match cfg ws c [] = None"
| "first_match cfg ws c (r # rs) =
     (if row_matches cfg ws c r then Some (r, rs) else first_match cfg ws c rs)"

text \<open>
  First-match resolution of a path: every constraint is anchored on the first row that
  satisfies it among the rows after the anchor of the constraint before it; the anchor of
  the last constraint is the result.
\<close>

fun first_match_anchor ::
  "config \<Rightarrow> worksheet \<Rightarrow> (int \<times> pystr) list \<Rightarrow> nat list \<Rightarrow> nat option" where
  "first_match_anchor cfg ws [] rows = None"
| "first_match_anchor cfg ws (c # cs) rows =
     (case first_match cfg ws c rows of
        None \<Rightarrow> None
      | Some (r, rest) \<Rightarrow> if cs = [] then Some r else first_match_anchor cfg ws cs rest)"

text \<open>
  The item of a source row when it has one and its axis is the given one (\<open>None\<close>: no
  axis was found); \<open>rows_of_axis\<close> lists these items for a list of rows, in row order.
\<close>

definition item_of_axis ::
  "pyrt \<Rightarrow> config \<Rightarrow> worksheet \<Rightarrow> int option \<Rightarrow> nat \<Rightarrow> item_data option" where
  "item_of_axis rt cfg ws a row =
     (case extract_row_data rt cfg ws row of
        Inr (Some d) \<Rightarrow> if axis d = a then Some d else None
      | _ \<Rightarrow> None)"

definition rows_of_axis ::
  "pyrt \<Rightarrow> config \<Rightarrow> worksheet \<Rightarrow> int option \<Rightarrow> nat list \<Rightarrow> item_data list" where
  "rows_of_axis rt cfg ws a rows = List.map_filter (item_of_axis rt cfg ws a) rows"

text \<open>The list stored under an axis number in \<open>items_by_axis\<close>, empty for a missing key.\<close>

definition group_items :: "(int \<times> item_data list) list \<Rightarrow> int \<Rightarrow> item_data list" where
  "group_items groups a = (case map_of groups a of None \<Rightarrow> [] | Some ds \<Rightarrow> ds)"

text \<open>
  The candidate locations of an item: the locations the index holds under its normalized
  key whose axis name is the given one, in index order.
\<close>

definition axis_candidates ::
  "(pystr \<rightharpoonup> location list) \<Rightarrow> pystr \<Rightarrow> pystr \<Rightarrow> location list" where
  "axis_candidates item_locations key mohor_name =
     filter (\<lambda>loc. loc_mohor loc = mohor_name)
       (case item_locations key of None \<Rightarrow> [] | Some locs \<Rightarrow> locs)"

text \<open>
  The field values of an update that existing and new items have in common: the values
  under the keys a_value, e_value and n_value.
\<close>

definition field_values :: "update \<Rightarrow> pyval option \<times> pyval option \<times> pyval option" where
  "field_values u = (u ''a_value'', u ''e_value'', u ''n_value'')"

text \<open>The update and the warning of a match result, where it has one.\<close>

fun result_update :: "match_result \<Rightarrow> update option" where
  "result_update (Existing upd w) = Some upd"
| "result_update (New upd) = Some upd"
| "result_update (NotFound err) = None"

fun result_warning :: "match_result \<Rightarrow> warning option" where
  "result_warning (Existing upd w) = w"
| "result_warning (New upd) = None"
| "result_warning (NotFound err) = None"




section \<open>Facts about the string operations\<close>

lemma strip_no_space: "\<forall>c\<in>set s. \<not> is_space c \<Longrightarrow> strip s = s"
proof (cases s)
  case Nil
  then show ?thesis by (simp add: strip_def)
next
  case (Cons a t)
  assume h: "\<forall>c\<in>set s. \<not> is_space c"
  have 1: "dropWhile is_space s = s" using h Cons by simp
  have "rev s \<noteq> []" using Cons by simp
  moreover have "\<not> is_space (hd (rev s))" using h Cons
    by (metis calculation hd_in_set set_rev)
  ultimately have 2: "dropWhile is_space (rev s) = rev s"
    by (cases "rev s") simp_all
  show ?thesis by (simp add: strip_def 1 2)
qed

lemma remove_spaces_no_space: "\<forall>c\<in>set s. \<not> is_space c \<Longrightarrow> remove_spaces s = s"
  by (simp add: remove_spaces_def)

lemma remove_spaces_clean: "\<forall>c\<in>set (remove_spaces s). \<not> is_space c"
  by (simp add: remove_spaces_def)

lemma replace_char_same: "replace_char c c s = s"
  by (induction s) (simp_all add: replace_char_def)

lemma is_space_range: "is_space c \<Longrightarrow> c \<le> 32 \<or> 133 \<le> c"
  by (simp add: is_space_def) linarith

lemma ascii_lower_char_clean:
  "\<not> is_space c \<Longrightarrow> \<not> is_space (if 65 \<le> c \<and> c \<le> 90 then c + 32 else c)"
  using is_space_range [of "c + 32"] by (cases "65 \<le> c \<and> c \<le> 90") auto

lemma ascii_lower_idem: "ascii_lower (ascii_lower s) = ascii_lower s"
  by (induction s) (simp_all add: ascii_lower_def)

lemma ascii_lower_clean:
  "(\<forall>c\<in>set s. \<not> is_space c) \<Longrightarrow> (\<forall>c\<in>set (ascii_lower s). \<not> is_space c)"
  unfolding ascii_lower_def using ascii_lower_char_clean by (induction s) simp_all

section \<open>Facts about the hierarchy search\<close>

lemma extract_loop_span:
  "extract_loop cfg ws parent_level target_level acc rs =
     acc @ map (\<lambda>r. \<lparr>item_row = r, item_level = get_outline_level ws r,
                      item_text = strip (py_str (cell_value ws r (PMS_TEXT_COL cfg)))\<rparr>)
       (filter (\<lambda>r. get_outline_level ws r = target_level)
         (takeWhile (\<lambda>r. parent_level < get_outline_level ws r)
           (filter (\<lambda>r. cell_value ws r (PMS_TEXT_COL cfg) \<noteq> CNone) rs)))"
  by (induction rs arbitrary: acc) (auto simp add: Let_def)

lemma find_parent_loop_first_match:
  "idx < length path \<Longrightarrow>
   find_parent_loop cfg ws path idx parent [i ..< n] =
     (case first_match_anchor cfg ws (drop idx path) [i ..< n] of
        None \<Rightarrow> Inr (None, None)
      | Some p \<Rightarrow> Inr (Some p, Some (p + 1)))"
proof (induction "n - i" arbitrary: i idx parent)
  case 0
  then have e: "[i ..< n] = []" by simp
  from 0 obtain c cs where d: "drop idx path = c # cs"
    by (cases "drop idx path") simp_all
  show ?case using 0 by (simp add: e d)
next
  case (Suc k)
  then have lt: "i < n" and k: "k = n - Suc i" by simp_all
  have u: "[i ..< n] = i # [Suc i ..< n]" using lt by (simp add: upt_conv_Cons)
  have d: "drop idx path = path ! idx # drop (Suc idx) path"
    using Suc.prems by (simp add: Cons_nth_drop_Suc)
  show ?case
  proof (cases "row_matches cfg ws (path ! idx) i")
    case False
    have "find_parent_loop cfg ws path idx parent [i ..< n]
        = find_parent_loop cfg ws path idx parent [Suc i ..< n]"
      using False Suc.prems by (auto simp add: u row_matches_def Let_def)
    also have "\<dots> = (case first_match_anchor cfg ws (drop idx path) [Suc i ..< n] of
        None \<Rightarrow> Inr (None, None) | Some p \<Rightarrow> Inr (Some p, Some (p + 1)))"
      using Suc.hyps(1) [OF k Suc.prems] .
    also have "first_match_anchor cfg ws (drop idx path) [Suc i ..< n]
        = first_match_anchor cfg ws (drop idx path) [i ..< n]"
      using False by (simp add: u d)
    finally show ?thesis .
  next
    case True
    have step: "find_parent_loop cfg ws path idx parent [i ..< n]
        = find_parent_loop cfg ws path (Suc idx) (Some i) [Suc i ..< n]"
      using True Suc.prems by (auto simp add: u row_matches_def Let_def)
    show ?thesis
    proof (cases "Suc idx < length path")
      case True
      then have ne: "drop (Suc idx) path \<noteq> []" by simp
      have "find_parent_loop cfg ws path (Suc idx) (Some i) [Suc i ..< n]
          = (case first_match_anchor cfg ws (drop (Suc idx) path) [Suc i ..< n] of
              None \<Rightarrow> Inr (None, None) | Some p \<Rightarrow> Inr (Some p, Some (p + 1)))"
        using Suc.hyps(1) [OF k True] .
      moreover have "first_match_anchor cfg ws (drop idx path) [i ..< n]
          = first_match_anchor cfg ws (drop (Suc idx) path) [Suc i ..< n]"
        using \<open>row_matches cfg ws (path ! idx) i\<close> ne by (simp add: u d)
      ultimately show ?thesis using step by simp
    next
      case False
      then have e: "drop (Suc idx) path = []" and ge: "length path \<le> Suc idx" by simp_all
      have "find_parent_loop cfg ws path (Suc idx) (Some i) [Suc i ..< n]
          = Inr (Some i, Some (i + 1))"
      proof (cases "Suc i < n")
        case True
        then show ?thesis using ge by (simp add: upt_conv_Cons)
      next
        case False
        then show ?thesis using ge by simp
      qed
      moreover have "first_match_anchor cfg ws (drop idx path) [i ..< n] = Some i"
        using \<open>row_matches cfg ws (path ! idx) i\<close> e by (simp add: u d)
      ultimately show ?thesis using step by simp
    qed
  qed
qed

text \<open>
  The walk of \<open>find_last_level5_in_section\<close> in the form of the walk of
  \<open>_extract_target_items\<close> (\<open>extract_loop_span\<close>): it lacks the removal of the rows with an
  empty text cell. Where no row from the start row on has an empty text cell, the two
  walks agree.
\<close>

lemma last_level5_loop_span:
  "last_level5_loop cfg ws section_level acc rows =
     (case filter (\<lambda>r. get_outline_level ws r = TARGET_LEVEL cfg)
             (takeWhile (\<lambda>r. section_level < get_outline_level ws r) rows) of
        [] \<Rightarrow> acc
      | xs \<Rightarrow> Some (last xs))"
proof (induction rows arbitrary: acc)
  case Nil
  then show ?case by simp
next
  case (Cons r rows)
  show ?case
    by (simp add: Cons.IH Let_def split: list.splits)
qed

lemma find_last_level5_without_blank_rows:
  assumes parent: "find_parent_section cfg ws (get_search_path cfg n) = Inr (Some p, Some s)"
    and filled: "\<forall>r\<in>set [s ..< max_row ws + 1]. cell_value ws r (PMS_TEXT_COL cfg) \<noteq> CNone"
  shows "find_last_level5_in_section cfg ws n =
     Inr (case extract_target_items cfg ws p s (TARGET_LEVEL cfg) of
            [] \<Rightarrow> None
          | xs \<Rightarrow> Some (item_row (last xs)))"
proof -
  let ?rows = "[s ..< max_row ws + 1]"
  let ?leaves = "filter (\<lambda>r. get_outline_level ws r = TARGET_LEVEL cfg)
      (takeWhile (\<lambda>r. get_outline_level ws p < get_outline_level ws r) ?rows)"
  have f: "filter (\<lambda>r. cell_value ws r (PMS_TEXT_COL cfg) \<noteq> CNone) ?rows = ?rows"
    using filled by (simp add: filter_id_conv)
  have e: "map item_row (extract_target_items cfg ws p s (TARGET_LEVEL cfg)) = ?leaves"
    unfolding extract_target_items_def extract_loop_span f
    by (simp add: comp_def)
  have l: "find_last_level5_in_section cfg ws n =
      Inr (case ?leaves of [] \<Rightarrow> None | xs \<Rightarrow> Some (last xs))"
    by (simp add: find_last_level5_in_section_def parent last_level5_loop_span)
  show ?thesis
  proof (cases "extract_target_items cfg ws p s (TARGET_LEVEL cfg)")
    case Nil
    then have "?leaves = []" using e by simp
    then show ?thesis using l Nil by simp
  next
    case (Cons x xs)
    then have "?leaves = map item_row (x # xs)" using e by simp
    then show ?thesis using l Cons by (simp add: last_map)
  qed
qed

section \<open>Facts about the axis extraction\<close>

lemmas axis_defs = search_pattern_def normalize_pnt_axis_def replace_char_def remove_char_def
  ascii_rt_def ascii_upper_def

lemma first_axis_in_range:
  "first_axis p s ns = Some m \<Longrightarrow> m \<in> set ns"
  by (induction ns) (auto split: if_splits)

lemma search_cols_in_range:
  "search_cols rt cfg ws r p cols = Some m \<Longrightarrow>
     AXIS_RANGE_START cfg \<le> m \<and> m < AXIS_RANGE_END cfg"
proof (induction cols)
  case Nil
  then show ?case by simp
next
  case (Cons c cols)
  then show ?case
    by (auto simp add: Let_def split: if_splits option.splits dest!: first_axis_in_range)
qed

lemma search_pattern_in_range:
  "search_pattern rt cfg ws r p = Some m \<Longrightarrow>
     AXIS_RANGE_START cfg \<le> m \<and> m < AXIS_RANGE_END cfg"
  unfolding search_pattern_def by (rule search_cols_in_range)

lemma extract_from_row_in_range:
  "extract_from_row rt cfg ws r = Some m \<Longrightarrow>
     AXIS_RANGE_START cfg \<le> m \<and> m < AXIS_RANGE_END cfg"
  unfolding extract_from_row_def
  by (auto split: option.splits if_splits dest: search_pattern_in_range)

lemma extract_from_row_axis_first:
  "search_pattern rt cfg ws r (py ''AXIS'') = Some m \<Longrightarrow> m \<noteq> 0 \<Longrightarrow>
     extract_from_row rt cfg ws r = Some m"
  by (simp add: extract_from_row_def)

lemma extract_from_row_positive_range:
  "0 < AXIS_RANGE_START cfg \<Longrightarrow>
   extract_from_row rt cfg ws r =
     (case search_pattern rt cfg ws r (py ''AXIS'') of
        Some m \<Rightarrow> Some m
      | None \<Rightarrow> search_pattern rt cfg ws r (py ''S''))"
  unfolding extract_from_row_def
  by (auto split: option.splits dest: search_pattern_in_range)

section \<open>Facts about the source extraction\<close>

lemma extract_row_data_row:
  "extract_row_data rt cfg ws row = Inr (Some d) \<Longrightarrow> pnt_row d = row"
  by (auto simp add: extract_row_data_def Let_def split: if_splits sum.splits)




lemma rows_of_axis_Nil: "rows_of_axis rt cfg ws a [] = []"
  by (simp add: rows_of_axis_def)

lemma rows_of_axis_Cons:
  "rows_of_axis rt cfg ws a (r # rs) =
     (case item_of_axis rt cfg ws a r of
        None \<Rightarrow> rows_of_axis rt cfg ws a rs
      | Some d \<Rightarrow> d # rows_of_axis rt cfg ws a rs)"
  by (simp add: rows_of_axis_def split: option.splits)

lemma rows_of_axis_rows:
  "map pnt_row (rows_of_axis rt cfg ws a rows) =
     filter (\<lambda>r. item_of_axis rt cfg ws a r \<noteq> None) rows"
proof (induction rows)
  case Nil
  then show ?case by (simp add: rows_of_axis_Nil)
next
  case (Cons r rows)
  show ?case
  proof (cases "item_of_axis rt cfg ws a r")
    case None
    then show ?thesis using Cons by (simp add: rows_of_axis_Cons)
  next
    case (Some d)
    then have "pnt_row d = r"
      by (auto simp add: item_of_axis_def split: sum.splits option.splits if_splits
          dest: extract_row_data_row)
    then show ?thesis using Cons Some by (simp add: rows_of_axis_Cons)
  qed
qed







lemma group_items_keys:
  "(group_items g a \<noteq> []) \<Longrightarrow> a \<in> set (map fst g)"
  by (cases "map_of g a") (auto simp add: group_items_def dest: map_of_SomeD intro: rev_image_eqI)


section \<open>The example documents, evaluated\<close>

lemmas example_defs = sheet_def cfg_ex_def py_def strip_def is_space_def
  get_outline_level_def get_search_path_def str_int_def str_nat.simps Let_def upto.simps

lemma pms_blank_parent:
  "find_parent_section cfg_ex pms_blank (get_search_path cfg_ex 19) = Inr (Some 3, Some 4)"
  by (simp add: find_parent_section_def pms_blank_def example_defs)

lemma pms_twice_parent:
  "find_parent_section cfg_ex pms_twice (get_search_path cfg_ex 19) = Inr (Some 3, Some 4)"
  by (simp add: find_parent_section_def pms_twice_def example_defs)

lemma cfg_ex_rows: "PNT_ROW_START cfg_ex = 7" "PNT_ROW_END cfg_ex = 31"
  by (simp_all add: cfg_ex_def)

lemma pms_empty_text_parent:
  "find_parent_section cfg_ex pms_empty_text (get_search_path cfg_ex 19) = Inr (Some 3, Some 4)"
  by (simp add: find_parent_section_def pms_empty_text_def example_defs)

lemma pms_late_leaf_parent:
  "find_parent_section cfg_ex pms_late_leaf (get_search_path cfg_ex 19) = Inr (Some 3, Some 4)"
  by (simp add: find_parent_section_def pms_late_leaf_def example_defs)

lemma pms_blank_leaves:
  "find_items cfg_ex pms_blank (get_search_path cfg_ex 19) (TARGET_LEVEL cfg_ex)
     = Inr [\<lparr>item_row = 4, item_level = 5, item_text = py ''Primer Coat''\<rparr>,
            \<lparr>item_row = 6, item_level = 5, item_text = py ''Primer Coat''\<rparr>]"
  unfolding find_items_def pms_blank_parent
  by (simp add: extract_target_items_def pms_blank_def example_defs)

lemma pms_blank_last: "find_last_level5_in_section cfg_ex pms_blank 19 = Inr (Some 4)"
  unfolding find_last_level5_in_section_def pms_blank_parent
  by (simp add: pms_blank_def example_defs)

lemma pms_late_leaf_leaves:
  "find_items cfg_ex pms_late_leaf (get_search_path cfg_ex 19) (TARGET_LEVEL cfg_ex)
     = Inr [\<lparr>item_row = 5, item_level = 5, item_text = py ''Primer Coat''\<rparr>]"
  unfolding find_items_def pms_late_leaf_parent
  by (simp add: extract_target_items_def pms_late_leaf_def example_defs)

lemma pms_late_leaf_last: "find_last_level5_in_section cfg_ex pms_late_leaf 19 = Inr None"
  unfolding find_last_level5_in_section_def pms_late_leaf_parent
  by (simp add: pms_late_leaf_def example_defs)

section \<open>The example source document, evaluated\<close>

lemmas row_defs = extract_row_data_def extract_from_row_def multiline_to_single_def
  normalize_standard_def remove_spaces_def split_def ascii_lower_def ascii_int_def








section \<open>Facts about the planner\<close>

lemma last_level5_loop_member:
  "last_level5_loop cfg ws lv acc rows = Some r \<Longrightarrow> acc = Some r \<or> r \<in> set rows"
  by (induction rows arbitrary: acc) (auto simp add: Let_def split: if_splits)

lemma get_search_path_parent:
  "find_parent_section cfg ws (get_search_path cfg n) = Inr (None, None)
   \<or> (\<exists>p. find_parent_section cfg ws (get_search_path cfg n) = Inr (Some p, Some (p + 1)))"
proof -
  have "0 < length (get_search_path cfg n)"
    by (simp add: get_search_path_def)
  from find_parent_loop_first_match [OF this, of cfg ws None 1 "max_row ws + 1"]
  show ?thesis
    by (simp add: find_parent_section_def split: option.splits)
qed

lemma find_last_level5_total:
  "find_last_level5_in_section cfg ws n = Inr None
   \<or> (\<exists>r. 0 < r \<and> find_last_level5_in_section cfg ws n = Inr (Some r))"
proof -
  from get_search_path_parent [of cfg ws n] show ?thesis
  proof
    assume "find_parent_section cfg ws (get_search_path cfg n) = Inr (None, None)"
    then show ?thesis by (simp add: find_last_level5_in_section_def)
  next
    assume "\<exists>p. find_parent_section cfg ws (get_search_path cfg n) = Inr (Some p, Some (p + 1))"
    then obtain p where
      p: "find_parent_section cfg ws (get_search_path cfg n) = Inr (Some p, Some (p + 1))" ..
    let ?res = "last_level5_loop cfg ws (get_outline_level ws p) None [p + 1 ..< max_row ws + 1]"
    have f: "find_last_level5_in_section cfg ws n = Inr ?res"
      by (simp add: find_last_level5_in_section_def p)
    show ?thesis
    proof (cases ?res)
      case None
      then show ?thesis using f by simp
    next
      case (Some r)
      from last_level5_loop_member [OF Some] have "0 < r" by auto
      then show ?thesis using f Some by simp
    qed
  qed
qed

lemma create_new_update_cases:
  "(\<exists>r. 0 < r \<and> find_last_level5_in_section cfg ws n = Inr (Some r)
        \<and> create_new_update cfg ws name n d g2 =
            Inr (New (map_of
              [(''mohor'', VCell (CStr name)),
               (''item_text'', VCell (CStr (new_item_label (single_line d)))),
               (''existing_rows'', VRows [r]),
               (''needed_quantity'', VCell (CInt (quantity d))),
               (''a_value'', VCell (CStr (single_line d))),
               (''e_value'', VCell g2),
               (''n_value'', VCell (m_value d)),
               (''g_value'', VCell (m_value d)),
               (''is_new_item'', VCell (CBool True))])))
   \<or> (find_last_level5_in_section cfg ws n = Inr None
       \<and> create_new_update cfg ws name n d g2 =
            Inr (NotFound \<lparr>nf_item = single_line d, nf_mohor = name,
                            nf_reason = not_found_reason\<rparr>))"
  using find_last_level5_total [of cfg ws n]
  by (auto simp add: create_new_update_def Let_def)

lemma match_item_cases:
  "match_item cfg ws name n d locs g2 =
     (if axis_candidates locs (normalized d) name \<noteq> []
      then Inr (create_existing_update name d (axis_candidates locs (normalized d) name) g2)
      else create_new_update cfg ws name n d g2)"
  by (simp add: match_item_def axis_candidates_def Let_def split: option.splits)

lemma match_item_new_without_blank_rows:
  assumes cands: "axis_candidates item_locations (normalized pnt_data) mohor_name = []"
    and parent: "find_parent_section cfg ws (get_search_path cfg mohor_num) = Inr (Some p, Some s)"
    and filled: "\<forall>r\<in>set [s ..< max_row ws + 1]. cell_value ws r (PMS_TEXT_COL cfg) \<noteq> CNone"
  shows "(extract_target_items cfg ws p s (TARGET_LEVEL cfg) = []
          \<and> match_item cfg ws mohor_name mohor_num pnt_data item_locations g2_value
               = Inr (NotFound \<lparr>nf_item = single_line pnt_data, nf_mohor = mohor_name,
                                 nf_reason = not_found_reason\<rparr>))
       \<or> (\<exists>leaves upd. extract_target_items cfg ws p s (TARGET_LEVEL cfg) = leaves
             \<and> leaves \<noteq> []
             \<and> match_item cfg ws mohor_name mohor_num pnt_data item_locations g2_value
                  = Inr (New upd)
             \<and> upd ''existing_rows'' = Some (VRows [item_row (last leaves)]))"
proof -
  note l = find_last_level5_without_blank_rows [OF parent filled]
  have m: "match_item cfg ws mohor_name mohor_num pnt_data item_locations g2_value
      = create_new_update cfg ws mohor_name mohor_num pnt_data g2_value"
    by (simp add: match_item_cases cands)
  show ?thesis
  proof (cases "extract_target_items cfg ws p s (TARGET_LEVEL cfg)")
    case Nil
    then have "find_last_level5_in_section cfg ws mohor_num = Inr None"
      using l by simp
    then show ?thesis
      using Nil m by (simp add: create_new_update_def)
  next
    case (Cons x xs)
    then have f: "find_last_level5_in_section cfg ws mohor_num
        = Inr (Some (item_row (last (x # xs))))"
      using l by simp
    from create_new_update_cases [of cfg ws mohor_num mohor_name pnt_data g2_value] f
    obtain upd where "create_new_update cfg ws mohor_name mohor_num pnt_data g2_value
          = Inr (New upd)" and "upd ''existing_rows'' = Some (VRows [item_row (last (x # xs))])"
      by auto
    then show ?thesis using Cons m by simp
  qed
qed

section \<open>The example index and items, evaluated\<close>

lemma pms_ex_last_19: "find_last_level5_in_section cfg_ex pms_ex 19 = Inr (Some 5)"
proof -
  have "find_parent_section cfg_ex pms_ex (get_search_path cfg_ex 19) = Inr (Some 3, Some 4)"
    by (simp add: find_parent_section_def pms_ex_def example_defs)
  then show ?thesis
    unfolding find_last_level5_in_section_def
    by (simp add: pms_ex_def example_defs)
qed

lemma pms_ex_last_21: "find_last_level5_in_section cfg_ex pms_ex 21 = Inr None"
proof -
  have "find_parent_section cfg_ex pms_ex (get_search_path cfg_ex 21) = Inr (None, None)"
    by (simp add: find_parent_section_def pms_ex_def example_defs)
  then show ?thesis
    unfolding find_last_level5_in_section_def by simp
qed

lemmas item_defs = primer_item_def tie_item_def seal_item_def far_item_def item_ex_def
  index_ex_def mohor_name_of_def axis_candidates_def

lemma primer_candidates:
  "map loc_row (axis_candidates index_ex (normalized primer_item) (mohor_name_of 19)) = [4, 5]"
  by (simp add: item_defs example_defs)

lemma seal_candidates:
  "axis_candidates index_ex (normalized seal_item) (mohor_name_of 19) = []"
  by (simp add: item_defs example_defs)

lemma far_candidates:
  "axis_candidates index_ex (normalized far_item) (mohor_name_of 21) = []"
  by (simp add: item_defs example_defs)

lemma plan_ex:
  "plan_updates cfg_ex pms_ex index_ex [(19, [primer_item, tie_item])] (CStr (py ''G2''))
     = Inr ([primer_update, tie_update], [],
            [\<lparr>w_item = py ''Primer Coat'', w_mohor = mohor_name_of 19,
               w_needed = 3, w_available = 2, w_deficit = 1\<rparr>])"
proof -
  have a: "match_item cfg_ex pms_ex (mohor_name_of 19) 19 primer_item index_ex (CStr (py ''G2''))
      = Inr (Existing primer_update
          (Some \<lparr>w_item = py ''Primer Coat'', w_mohor = mohor_name_of 19,
               w_needed = 3, w_available = 2, w_deficit = 1\<rparr>))"
    by (simp add: match_item_def create_existing_update_def primer_update_def
        item_defs example_defs)
  have "axis_candidates index_ex (normalized tie_item) (mohor_name_of 19) = []"
    by (simp add: item_defs example_defs)
  then have b: "match_item cfg_ex pms_ex (mohor_name_of 19) 19 tie_item index_ex (CStr (py ''G2''))
      = Inr (New tie_update)"
    by (simp add: match_item_cases create_new_update_def pms_ex_last_19 tie_update_def
        tie_item_def item_ex_def)
  show ?thesis
    by (simp add: plan_updates_def a b)
qed

section \<open>Facts about the keys of the updates\<close>

lemmas key_defs = keys_read_def get_truthy_def process_update_reads_def
  new_item_keys_def existing_item_keys_def

lemma existing_update_keys:
  assumes "create_existing_update name d locs g2 = Existing u w"
  shows "u ''is_new_item'' = Some (VCell (CBool (u ''g_value'' \<noteq> None)))
       \<and> u ''g_value'' = None
       \<and> keys_read u = existing_item_keys
       \<and> (\<exists>vs. process_update_reads u = Inr vs)"
proof -
  from assms have u: "u = map_of
         [(''mohor'', VCell (CStr name)),
          (''item_text'', VCell (CStr (single_line d))),
          (''existing_rows'', VRows (map loc_row locs)),
          (''needed_quantity'', VCell (CInt (quantity d))),
          (''a_value'', VCell (CStr (single_line d))),
          (''e_value'', VCell g2),
          (''n_value'', VCell (m_value d)),
          (''is_new_item'', VCell (CBool False))]"
    by (simp add: create_existing_update_def Let_def split: if_splits)
  show ?thesis
    unfolding u by (simp add: key_defs)
qed

lemma new_update_keys:
  assumes "create_new_update cfg ws name n d g2 = Inr (New u)"
  shows "u ''is_new_item'' = Some (VCell (CBool (u ''g_value'' \<noteq> None)))
       \<and> u ''g_value'' = Some (VCell (m_value d))
       \<and> keys_read u = new_item_keys
       \<and> (\<exists>vs. process_update_reads u = Inr vs)"
proof -
  from assms create_new_update_cases [of cfg ws n name d g2]
  obtain r where u: "u = map_of
              [(''mohor'', VCell (CStr name)),
               (''item_text'', VCell (CStr (new_item_label (single_line d)))),
               (''existing_rows'', VRows [r]),
               (''needed_quantity'', VCell (CInt (quantity d))),
               (''a_value'', VCell (CStr (single_line d))),
               (''e_value'', VCell g2),
               (''n_value'', VCell (m_value d)),
               (''g_value'', VCell (m_value d)),
               (''is_new_item'', VCell (CBool True))]"
    by auto
  show ?thesis
    unfolding u by (simp add: key_defs)
qed

lemma create_new_update_not_existing:
  "create_new_update cfg ws name n d g2 \<noteq> Inr (Existing u w)"
  using create_new_update_cases [of cfg ws n name d g2] by auto

lemma match_item_keys:
  assumes "match_item cfg ws name n d locs g2 = Inr res"
    and "result_update res = Some u"
  shows "u ''is_new_item'' = Some (VCell (CBool (u ''g_value'' \<noteq> None)))
       \<and> (''g_value'' \<in> set (keys_read u)) = (u ''g_value'' \<noteq> None)
       \<and> (\<exists>vs. process_update_reads u = Inr vs)"
proof (cases res)
  case (Existing u' w)
  with assms have u': "u' = u" by simp
  have "\<exists>locs'. create_existing_update name d locs' g2 = Existing u w"
  proof (cases "axis_candidates locs (normalized d) name \<noteq> []")
    case True
    then show ?thesis using assms(1) Existing u' by (auto simp add: match_item_cases)
  next
    case False
    then show ?thesis
      using assms(1) Existing u' create_new_update_not_existing [of cfg ws name n d g2 u w]
      by (simp add: match_item_cases)
  qed
  then obtain locs' where "create_existing_update name d locs' g2 = Existing u w" ..
  from existing_update_keys [OF this] show ?thesis
    by (simp add: existing_item_keys_def)
next
  case (New u')
  with assms have u': "u' = u" by simp
  have "create_new_update cfg ws name n d g2 = Inr (New u)"
  proof (cases "axis_candidates locs (normalized d) name \<noteq> []")
    case True
    then show ?thesis
      using assms(1) New u'
      by (auto simp add: match_item_cases create_existing_update_def Let_def split: if_splits)
  next
    case False
    then show ?thesis using assms(1) New u' by (simp add: match_item_cases)
  qed
  from new_update_keys [OF this] show ?thesis
    by (simp add: new_item_keys_def)
next
  case (NotFound e)
  with assms show ?thesis by simp
qed

lemma plan_items_keys:
  assumes "plan_items cfg ws locs g2 n (us, nf, wn) items = Inr (us', nf', wn')"
    and "\<forall>u\<in>set us. P u"
    and "\<And>d res u. match_item cfg ws (mohor_name_of n) n d locs g2 = Inr res \<Longrightarrow>
           result_update res = Some u \<Longrightarrow> P u"
  shows "\<forall>u\<in>set us'. P u"
  using assms(1,2)
proof (induction items arbitrary: us nf wn)
  case Nil
  then show ?case by simp
next
  case (Cons d items)
  show ?case
  proof (cases "match_item cfg ws (mohor_name_of n) n d locs g2")
    case (Inl e)
    then show ?thesis using Cons.prems by simp
  next
    case (Inr res)
    show ?thesis
    proof (cases res)
      case (Existing u w)
      have "P u" using assms(3) [OF Inr] Existing by simp
      then have all: "\<forall>v\<in>set (us @ [u]). P v" using Cons.prems(2) by simp
      from Cons.prems(1) Inr Existing
      have "plan_items cfg ws locs g2 n (us @ [u], nf,
          (case w of None \<Rightarrow> wn | Some w' \<Rightarrow> wn @ [w'])) items = Inr (us', nf', wn')"
        by simp
      from Cons.IH [OF this all] show ?thesis .
    next
      case (New u)
      have "P u" using assms(3) [OF Inr] New by simp
      then have all: "\<forall>v\<in>set (us @ [u]). P v" using Cons.prems(2) by simp
      from Cons.prems(1) Inr New
      have "plan_items cfg ws locs g2 n (us @ [u], nf, wn) items = Inr (us', nf', wn')"
        by simp
      from Cons.IH [OF this all] show ?thesis .
    next
      case (NotFound e)
      from Cons.prems(1) Inr NotFound
      have "plan_items cfg ws locs g2 n (us, nf @ [e], wn) items = Inr (us', nf', wn')"
        by simp
      from Cons.IH [OF this Cons.prems(2)] show ?thesis .
    qed
  qed
qed

lemma plan_axes_keys:
  assumes "plan_axes cfg ws locs g2 (us, nf, wn) groups = Inr (us', nf', wn')"
    and "\<forall>u\<in>set us. P u"
    and "\<And>n d res u. match_item cfg ws (mohor_name_of n) n d locs g2 = Inr res \<Longrightarrow>
           result_update res = Some u \<Longrightarrow> P u"
  shows "\<forall>u\<in>set us'. P u"
  using assms(1,2)
proof (induction groups arbitrary: us nf wn)
  case Nil
  then show ?case by simp
next
  case (Cons g groups)
  obtain n items where g: "g = (n, items)" by (cases g)
  show ?case
  proof (cases "plan_items cfg ws locs g2 n (us, nf, wn) items")
    case (Inl e)
    then show ?thesis using Cons.prems g by simp
  next
    case (Inr acc)
    obtain us1 nf1 wn1 where acc: "acc = (us1, nf1, wn1)" by (cases acc)
    have 1: "\<forall>u\<in>set us1. P u"
      using plan_items_keys [OF Inr [unfolded acc] Cons.prems(2)] assms(3) by blast
    from Cons.prems(1) g Inr acc
    have "plan_axes cfg ws locs g2 (us1, nf1, wn1) groups = Inr (us', nf', wn')"
      by simp
    from Cons.IH [OF this 1] show ?thesis .
  qed
qed

section \<open>Key normalization\<close>

text \<open>
  Claim C8. \<open>normalize_standard\<close> is idempotent: normalizing a normalized key gives the
  same key, for every text and for absent text. The statement holds for every runtime
  whose \<open>lower()\<close> maps the empty string to itself, is idempotent and yields no white
  space on a string without white space, as Python's does.
\<close>

theorem normalize_standard_idempotent:
  assumes empty: "str_lower rt [] = []"
    and idem: "\<forall>s. str_lower rt (str_lower rt s) = str_lower rt s"
    and clean: "\<forall>s. (\<forall>c\<in>set s. \<not> is_space c) \<longrightarrow> (\<forall>c\<in>set (str_lower rt s). \<not> is_space c)"
  shows "normalize_standard rt (Some (normalize_standard rt x)) = normalize_standard rt x"
proof (cases x)
  case None
  then show ?thesis
    using empty
    by (simp add: normalize_standard_def strip_def replace_char_def remove_spaces_def)
next
  case (Some t)
  define w where "w = remove_spaces (replace_char 1705 1705 (replace_char 1740 1740 (strip t)))"
  have y: "normalize_standard rt x = str_lower rt w"
    by (simp add: Some normalize_standard_def w_def)
  have "\<forall>c\<in>set w. \<not> is_space c"
    unfolding w_def by (rule remove_spaces_clean)
  then have ns: "\<forall>c\<in>set (str_lower rt w). \<not> is_space c"
    using clean by blast
  have "normalize_standard rt (Some (str_lower rt w)) = str_lower rt (str_lower rt w)"
    by (simp add: normalize_standard_def strip_no_space [OF ns] replace_char_same
        remove_spaces_no_space [OF ns])
  then show ?thesis using idem y by simp
qed

theorem normalize_standard_idempotent_witness:
  "str_lower ascii_rt [] = []
   \<and> normalize_standard ascii_rt (Some (py '' Glass  Flake '')) = py ''glassflake''
   \<and> normalize_standard ascii_rt (Some (normalize_standard ascii_rt (Some (py '' Glass  Flake ''))))
       = py ''glassflake''"
proof -
  have h0: "str_lower ascii_rt [] = []"
    by (simp add: ascii_rt_def ascii_lower_def)
  have h1: "\<forall>s. str_lower ascii_rt (str_lower ascii_rt s) = str_lower ascii_rt s"
    by (simp add: ascii_rt_def ascii_lower_idem)
  have h2: "\<forall>s. (\<forall>c\<in>set s. \<not> is_space c) \<longrightarrow> (\<forall>c\<in>set (str_lower ascii_rt s). \<not> is_space c)"
    using ascii_lower_clean by (simp add: ascii_rt_def)
  have v: "normalize_standard ascii_rt (Some (py '' Glass  Flake '')) = py ''glassflake''"
    by (simp add: normalize_standard_def py_def strip_def is_space_def remove_spaces_def
        replace_char_def ascii_rt_def ascii_lower_def)
  have r: "normalize_standard ascii_rt (Some (normalize_standard ascii_rt (Some (py '' Glass  Flake ''))))
       = normalize_standard ascii_rt (Some (py '' Glass  Flake ''))"
    by (rule normalize_standard_idempotent [OF h0 h1 h2])
  have r': "normalize_standard ascii_rt (Some (normalize_standard ascii_rt (Some (py '' Glass  Flake ''))))
       = py ''glassflake''"
    using r v by (simp only:)
  show ?thesis
    by (rule conjI [OF h0 conjI [OF v r']])
qed

section \<open>Leaf enumeration\<close>

text \<open>
  Claim C3 says that a row whose text is empty or null is skipped without its outline
  level being consulted. \<open>_extract_target_items\<close> tests \<open>cell_value is None\<close> only: a cell
  that holds the empty string is a value. In the document below row 5, at the target
  level, is collected as a leaf with empty text, row 6, of outline level 0, ends the
  scan, and the leaf in row 7 is not collected.
\<close>

theorem empty_text_row_counterexample:
  "cell_value pms_empty_text 5 (PMS_TEXT_COL cfg_ex) = CStr []
   \<and> cell_value pms_empty_text 6 (PMS_TEXT_COL cfg_ex) = CStr []
   \<and> cell_value pms_empty_text 7 (PMS_TEXT_COL cfg_ex) = CStr (py ''Tie Coat'')
   \<and> get_outline_level pms_empty_text 7 = TARGET_LEVEL cfg_ex
   \<and> find_items cfg_ex pms_empty_text (get_search_path cfg_ex 19) (TARGET_LEVEL cfg_ex)
       = Inr [\<lparr>item_row = 4, item_level = 5, item_text = py ''Primer Coat''\<rparr>,
              \<lparr>item_row = 5, item_level = 5, item_text = []\<rparr>]"
proof -
  have 1: "cell_value pms_empty_text 5 (PMS_TEXT_COL cfg_ex) = CStr []"
    by (simp add: pms_empty_text_def example_defs)
  have 2: "cell_value pms_empty_text 6 (PMS_TEXT_COL cfg_ex) = CStr []"
    by (simp add: pms_empty_text_def example_defs)
  have 3: "cell_value pms_empty_text 7 (PMS_TEXT_COL cfg_ex) = CStr (py ''Tie Coat'')"
    by (simp add: pms_empty_text_def example_defs)
  have 4: "get_outline_level pms_empty_text 7 = TARGET_LEVEL cfg_ex"
    by (simp add: pms_empty_text_def example_defs)
  have 5: "find_items cfg_ex pms_empty_text (get_search_path cfg_ex 19) (TARGET_LEVEL cfg_ex)
       = Inr [\<lparr>item_row = 4, item_level = 5, item_text = py ''Primer Coat''\<rparr>,
              \<lparr>item_row = 5, item_level = 5, item_text = []\<rparr>]"
    unfolding find_items_def pms_empty_text_parent
    by (simp add: extract_target_items_def pms_empty_text_def example_defs)
  show ?thesis
    by (rule conjI [OF 1 conjI [OF 2 conjI [OF 3 conjI [OF 4 5]]]])
qed

text \<open>
  Claim C3, amended. The leaves that \<open>_extract_target_items\<close> returns are determined as
  follows. Rows whose text cell holds no value (\<open>None\<close>) are dropped first, whatever their
  outline level, so such a row never ends the scan; a cell holding the empty string is
  not dropped. Of the remaining rows from the start row on, the scan keeps those before
  the first row whose outline level is at most the level of the anchor; rows after that
  row are not collected. Of these, exactly the rows at the target level are returned, in
  row order, each with its row number, level and stripped text.
\<close>

theorem extract_target_items_span:
  "extract_target_items cfg ws parent_row start_row target_level =
     map (\<lambda>r. \<lparr>item_row = r, item_level = get_outline_level ws r,
                item_text = strip (py_str (cell_value ws r (PMS_TEXT_COL cfg)))\<rparr>)
       (filter (\<lambda>r. get_outline_level ws r = target_level)
         (takeWhile (\<lambda>r. get_outline_level ws parent_row < get_outline_level ws r)
           (filter (\<lambda>r. cell_value ws r (PMS_TEXT_COL cfg) \<noteq> CNone)
             [start_row ..< max_row ws + 1])))"
  by (simp add: extract_target_items_def extract_loop_span)

text \<open>
  In the example document the blank row 5 is passed over, the level-4 row 7 ends the
  scan, and the leaf in row 8 is not collected.
\<close>

theorem extract_target_items_span_witness:
  "extract_target_items cfg_ex pms_blank 3 4 5 =
     [\<lparr>item_row = 4, item_level = 5, item_text = py ''Primer Coat''\<rparr>,
      \<lparr>item_row = 6, item_level = 5, item_text = py ''Primer Coat''\<rparr>]"
  unfolding extract_target_items_span [of cfg_ex pms_blank 3 4 5]
  by (simp add: pms_blank_def example_defs)

section \<open>Path resolution\<close>

text \<open>
  Claim C1 says that the last row matching a constraint becomes its anchor, so that
  with two level-1 sections matching the same text the locator anchors on the second
  one. The source advances \<open>current_idx\<close> on the first match. In the document below rows
  1 and 5 both satisfy the level-1 constraint of axis 19; the level-1 constraint alone
  resolves to row 1, the whole path resolves to row 3 in the first section, and the
  leaves found are those of the first section.
\<close>

theorem last_match_anchor_counterexample:
  "row_matches cfg_ex pms_twice (1, py ''Axis 19'') 1
   \<and> row_matches cfg_ex pms_twice (1, py ''Axis 19'') 5
   \<and> find_parent_section cfg_ex pms_twice [(1, py ''Axis 19'')] = Inr (Some 1, Some 2)
   \<and> find_parent_section cfg_ex pms_twice (get_search_path cfg_ex 19) = Inr (Some 3, Some 4)
   \<and> find_items cfg_ex pms_twice (get_search_path cfg_ex 19) 5
       = Inr [\<lparr>item_row = 4, item_level = 5, item_text = py ''Primer Coat''\<rparr>]"
proof -
  have 1: "row_matches cfg_ex pms_twice (1, py ''Axis 19'') 1"
    by (simp add: row_matches_def pms_twice_def example_defs)
  have 2: "row_matches cfg_ex pms_twice (1, py ''Axis 19'') 5"
    by (simp add: row_matches_def pms_twice_def example_defs)
  have 3: "find_parent_section cfg_ex pms_twice [(1, py ''Axis 19'')] = Inr (Some 1, Some 2)"
    by (simp add: find_parent_section_def pms_twice_def example_defs)
  have 4: "find_items cfg_ex pms_twice (get_search_path cfg_ex 19) 5
       = Inr [\<lparr>item_row = 4, item_level = 5, item_text = py ''Primer Coat''\<rparr>]"
    unfolding find_items_def pms_twice_parent
    by (simp add: extract_target_items_def pms_twice_def example_defs)
  show ?thesis
    by (rule conjI [OF 1 conjI [OF 2 conjI [OF 3 conjI [OF pms_twice_parent 4]]]])
qed

text \<open>
  Claim C1, amended. For every worksheet and every non-empty path, \<open>_find_parent_section\<close>
  anchors each constraint on the first row that satisfies it after the anchor of the
  constraint before it. It returns the anchor of the last constraint and the row after
  it, or \<open>(None, None)\<close> when some constraint has no such row.
\<close>

theorem find_parent_section_first_match:
  assumes "search_path \<noteq> []"
  shows "find_parent_section cfg ws search_path =
     (case first_match_anchor cfg ws search_path [1 ..< max_row ws + 1] of
        None \<Rightarrow> Inr (None, None)
      | Some p \<Rightarrow> Inr (Some p, Some (p + 1)))"
  using assms find_parent_loop_first_match [of 0 search_path cfg ws None 1 "max_row ws + 1"]
  by (simp add: find_parent_section_def)

theorem find_parent_section_first_match_witness:
  "get_search_path cfg_ex 19 \<noteq> []
   \<and> first_match_anchor cfg_ex pms_twice (get_search_path cfg_ex 19) [1 ..< max_row pms_twice + 1]
       = Some 3
   \<and> find_parent_section cfg_ex pms_twice (get_search_path cfg_ex 19) = Inr (Some 3, Some 4)"
proof -
  have ne: "get_search_path cfg_ex 19 \<noteq> []"
    by (simp add: get_search_path_def)
  have a: "first_match_anchor cfg_ex pms_twice (get_search_path cfg_ex 19)
      [1 ..< max_row pms_twice + 1] = Some 3"
    by (simp add: row_matches_def pms_twice_def example_defs)
  have "find_parent_section cfg_ex pms_twice (get_search_path cfg_ex 19)
      = Inr (Some 3, Some 4)"
    unfolding find_parent_section_first_match [OF ne] a by simp
  with ne a show ?thesis by (simp only: simp_thms)
qed

section \<open>The last leaf of a section\<close>

text \<open>
  Claim C2 says that \<open>find_last_level5_in_section\<close> returns the row of the last leaf that
  \<open>_extract_target_items\<close> lists for the same anchor. \<open>find_last_level5_in_section\<close> does
  not pass over rows with an empty text cell as \<open>_extract_target_items\<close> does: in the
  example document the blank row 5, of outline level 0, ends its scan. The leaves listed
  are rows 4 and 6, the last leaf reported is row 4. The two walks agree on worksheets
  without such rows, see \<open>find_last_level5_without_blank_rows\<close>.
\<close>

theorem find_last_level5_stops_at_blank_row:
  "find_items cfg_ex pms_blank (get_search_path cfg_ex 19) (TARGET_LEVEL cfg_ex)
     = Inr [\<lparr>item_row = 4, item_level = 5, item_text = py ''Primer Coat''\<rparr>,
            \<lparr>item_row = 6, item_level = 5, item_text = py ''Primer Coat''\<rparr>]
   \<and> find_last_level5_in_section cfg_ex pms_blank 19 = Inr (Some 4)"
proof -
  have 1: "find_items cfg_ex pms_blank (get_search_path cfg_ex 19) (TARGET_LEVEL cfg_ex)
     = Inr [\<lparr>item_row = 4, item_level = 5, item_text = py ''Primer Coat''\<rparr>,
            \<lparr>item_row = 6, item_level = 5, item_text = py ''Primer Coat''\<rparr>]"
    unfolding find_items_def pms_blank_parent
    by (simp add: extract_target_items_def pms_blank_def example_defs)
  have 2: "find_last_level5_in_section cfg_ex pms_blank 19 = Inr (Some 4)"
    unfolding find_last_level5_in_section_def pms_blank_parent
    by (simp add: pms_blank_def example_defs)
  show ?thesis by (rule conjI [OF 1 2])
qed

section \<open>Axis priority\<close>

text \<open>
  Claim C5 says that whenever some column holds an AXIS token of an axis in the
  configured range, the result comes from the AXIS pass. \<open>extract_from_row\<close> tests the
  result of the AXIS pass with \<open>if mohor:\<close>, which is false for axis 0 as it is for
  \<open>None\<close>. With the axis range 0 to 4, a row holding \<open>S3\<close> in the first axis column and
  \<open>AXIS0\<close> in the second, the AXIS pass finds axis 0, and the result is axis 3, from the S
  pass. For a range of positive axis numbers the claim holds, see
  \<open>extract_from_row_positive_range\<close> and \<open>extract_from_row_in_range\<close>.
\<close>

theorem extract_from_row_axis_zero:
  "search_pattern ascii_rt cfg_axis0 pnt_axis0 7 (py ''AXIS'') = Some 0
   \<and> search_pattern ascii_rt cfg_axis0 pnt_axis0 7 (py ''S'') = Some 3
   \<and> extract_from_row ascii_rt cfg_axis0 pnt_axis0 7 = Some 3"
proof -
  have 1: "search_pattern ascii_rt cfg_axis0 pnt_axis0 7 (py ''AXIS'') = Some 0"
    by (simp add: axis_defs cfg_axis0_def pnt_axis0_def example_defs)
  have 2: "search_pattern ascii_rt cfg_axis0 pnt_axis0 7 (py ''S'') = Some 3"
    by (simp add: axis_defs cfg_axis0_def pnt_axis0_def example_defs)
  have 3: "extract_from_row ascii_rt cfg_axis0 pnt_axis0 7 = Some 3"
    unfolding extract_from_row_def 1 2 by simp
  show ?thesis by (rule conjI [OF 1 conjI [OF 2 3]])
qed

section \<open>The quantity of a source row\<close>

text \<open>
  Claim C4 says that reading the quantity cell never raises and that a non-numeric
  value gives the quantity 0. The source computes \<open>int(quantity) if quantity else 0\<close>:
  only a falsy cell gives 0 without a conversion. For a quantity cell holding the text
  \<open>abc\<close>, \<open>int\<close> raises \<open>ValueError\<close>, which leaves \<open>_extract_row_data\<close> and ends
  \<open>extract_all_items\<close>.
\<close>

theorem quantity_text_counterexample:
  "cell_value pnt_text_quantity 7 (PNT_QUANTITY_COL cfg_ex) = CStr (py ''abc'')
   \<and> extract_row_data ascii_rt cfg_ex pnt_text_quantity 7 = Inl ValueError
   \<and> extract_all_items ascii_rt cfg_ex pnt_text_quantity = Inl ValueError"
proof -
  have 1: "cell_value pnt_text_quantity 7 (PNT_QUANTITY_COL cfg_ex) = CStr (py ''abc'')"
    by (simp add: pnt_text_quantity_def example_defs)
  have 2: "extract_row_data ascii_rt cfg_ex pnt_text_quantity 7 = Inl ValueError"
    by (simp add: row_defs axis_defs pnt_text_quantity_def example_defs)
  have 3: "extract_all_items ascii_rt cfg_ex pnt_text_quantity = Inl ValueError"
    by (simp add: extract_all_items_def cfg_ex_rows upt_conv_Cons 2)
  show ?thesis by (rule conjI [OF 1 conjI [OF 2 3]])
qed

text \<open>
  Claim C4, amended. For every source row that has an item (a truthy item cell whose
  normalized text is not empty): a quantity cell that is missing or otherwise falsy
  gives the quantity 0; a cell holding an integer gives that integer; any other truthy
  value is converted with \<open>int\<close>, whose result is the quantity and whose exception is
  the exception of the row. In every case that yields an item, the auxiliary value is
  the value of its cell, unchanged.
\<close>

theorem extract_row_data_quantity:
  assumes item: "truthy (cell_value ws row (PNT_ITEM_COL cfg))"
    and norm: "normalize_standard rt (Some (multiline_to_single
         (Some (strip (py_str (cell_value ws row (PNT_ITEM_COL cfg))))))) \<noteq> []"
  shows "(\<not> truthy (cell_value ws row (PNT_QUANTITY_COL cfg)) \<longrightarrow>
            (\<exists>d. extract_row_data rt cfg ws row = Inr (Some d) \<and> quantity d = 0
                 \<and> m_value d = cell_value ws row (PNT_M_VALUE_COL cfg)))
       \<and> (\<forall>n. cell_value ws row (PNT_QUANTITY_COL cfg) = CInt n \<longrightarrow>
            (\<exists>d. extract_row_data rt cfg ws row = Inr (Some d) \<and> quantity d = n
                 \<and> m_value d = cell_value ws row (PNT_M_VALUE_COL cfg)))
       \<and> (truthy (cell_value ws row (PNT_QUANTITY_COL cfg)) \<longrightarrow>
            (case py_int rt (cell_value ws row (PNT_QUANTITY_COL cfg)) of
               Inl e \<Rightarrow> extract_row_data rt cfg ws row = Inl e
             | Inr q \<Rightarrow>
                 (\<exists>d. extract_row_data rt cfg ws row = Inr (Some d) \<and> quantity d = q
                      \<and> m_value d = cell_value ws row (PNT_M_VALUE_COL cfg))))"
proof (intro conjI allI impI)
  assume "\<not> truthy (cell_value ws row (PNT_QUANTITY_COL cfg))"
  then show "\<exists>d. extract_row_data rt cfg ws row = Inr (Some d) \<and> quantity d = 0
                 \<and> m_value d = cell_value ws row (PNT_M_VALUE_COL cfg)"
    using item norm by (simp add: extract_row_data_def Let_def)
next
  fix n
  assume "cell_value ws row (PNT_QUANTITY_COL cfg) = CInt n"
  then show "\<exists>d. extract_row_data rt cfg ws row = Inr (Some d) \<and> quantity d = n
                 \<and> m_value d = cell_value ws row (PNT_M_VALUE_COL cfg)"
    using item norm by (simp add: extract_row_data_def Let_def)
next
  assume "truthy (cell_value ws row (PNT_QUANTITY_COL cfg))"
  then show "case py_int rt (cell_value ws row (PNT_QUANTITY_COL cfg)) of
               Inl e \<Rightarrow> extract_row_data rt cfg ws row = Inl e
             | Inr q \<Rightarrow>
                 (\<exists>d. extract_row_data rt cfg ws row = Inr (Some d) \<and> quantity d = q
                      \<and> m_value d = cell_value ws row (PNT_M_VALUE_COL cfg))"
    using item norm by (simp add: extract_row_data_def Let_def split: sum.splits)
qed

theorem extract_row_data_quantity_witness:
  "truthy (cell_value pnt_ex 7 (PNT_ITEM_COL cfg_ex))
   \<and> cell_value pnt_ex 7 (PNT_QUANTITY_COL cfg_ex) = CInt 3
   \<and> (\<exists>d. extract_row_data ascii_rt cfg_ex pnt_ex 7 = Inr (Some d) \<and> quantity d = 3
          \<and> m_value d = CInt 12)
   \<and> \<not> truthy (cell_value pnt_ex 8 (PNT_QUANTITY_COL cfg_ex))
   \<and> (\<exists>d. extract_row_data ascii_rt cfg_ex pnt_ex 8 = Inr (Some d) \<and> quantity d = 0
          \<and> m_value d = CStr (py ''x''))"
proof -
  have i7: "truthy (cell_value pnt_ex 7 (PNT_ITEM_COL cfg_ex))"
    by (simp add: pnt_ex_def example_defs)
  have n7: "normalize_standard ascii_rt (Some (multiline_to_single
         (Some (strip (py_str (cell_value pnt_ex 7 (PNT_ITEM_COL cfg_ex))))))) \<noteq> []"
    by (simp add: row_defs axis_defs pnt_ex_def example_defs)
  have q7: "cell_value pnt_ex 7 (PNT_QUANTITY_COL cfg_ex) = CInt 3"
    by (simp add: pnt_ex_def example_defs)
  have m7: "cell_value pnt_ex 7 (PNT_M_VALUE_COL cfg_ex) = CInt 12"
    by (simp add: pnt_ex_def example_defs)
  have i8: "truthy (cell_value pnt_ex 8 (PNT_ITEM_COL cfg_ex))"
    by (simp add: pnt_ex_def example_defs)
  have n8: "normalize_standard ascii_rt (Some (multiline_to_single
         (Some (strip (py_str (cell_value pnt_ex 8 (PNT_ITEM_COL cfg_ex))))))) \<noteq> []"
    by (simp add: row_defs axis_defs pnt_ex_def example_defs)
  have q8: "\<not> truthy (cell_value pnt_ex 8 (PNT_QUANTITY_COL cfg_ex))"
    by (simp add: pnt_ex_def example_defs)
  have m8: "cell_value pnt_ex 8 (PNT_M_VALUE_COL cfg_ex) = CStr (py ''x'')"
    by (simp add: pnt_ex_def example_defs)
  have a: "\<exists>d. extract_row_data ascii_rt cfg_ex pnt_ex 7 = Inr (Some d) \<and> quantity d = 3
          \<and> m_value d = CInt 12"
    using extract_row_data_quantity [OF i7 n7] q7 m7 by simp
  have b: "\<exists>d. extract_row_data ascii_rt cfg_ex pnt_ex 8 = Inr (Some d) \<and> quantity d = 0
          \<and> m_value d = CStr (py ''x'')"
    using extract_row_data_quantity [OF i8 n8] q8 m8 by simp
  show ?thesis
    by (rule conjI [OF i7 conjI [OF q7 conjI [OF a conjI [OF q8 b]]]])
qed

section \<open>Classification of the source rows\<close>



section \<open>Matching a source item\<close>

text \<open>
  Claim C6 says that an item without a candidate location gives New, anchored at the
  last leaf of the section of its axis, when such a leaf exists, and is unresolvable
  otherwise. \<open>_create_new_update\<close> takes the anchor from \<open>find_last_level5_in_section\<close>,
  whose walk does not pass over rows with an empty text cell (the defect of claim C2).
  In the first document below the leaves of the section are rows 4 and 6 and the item
  is anchored at row 4, before the blank row. In the second the section has a leaf, in
  row 5 after a blank row, and the item is reported as not found.
\<close>

theorem match_item_anchor_at_blank_row:
  "find_items cfg_ex pms_blank (get_search_path cfg_ex 19) (TARGET_LEVEL cfg_ex)
     = Inr [\<lparr>item_row = 4, item_level = 5, item_text = py ''Primer Coat''\<rparr>,
            \<lparr>item_row = 6, item_level = 5, item_text = py ''Primer Coat''\<rparr>]
   \<and> match_item cfg_ex pms_blank (mohor_name_of 19) 19 tie_item index_blank (CStr (py ''G2''))
       = Inr (New (map_of
           [(''mohor'', VCell (CStr (mohor_name_of 19))),
            (''item_text'', VCell (CStr (new_item_label (py ''Tie Coat'')))),
            (''existing_rows'', VRows [4]),
            (''needed_quantity'', VCell (CInt 1)),
            (''a_value'', VCell (CStr (py ''Tie Coat''))),
            (''e_value'', VCell (CStr (py ''G2''))),
            (''n_value'', VCell (CInt 12)),
            (''g_value'', VCell (CInt 12)),
            (''is_new_item'', VCell (CBool True))]))
   \<and> find_items cfg_ex pms_late_leaf (get_search_path cfg_ex 19) (TARGET_LEVEL cfg_ex)
       = Inr [\<lparr>item_row = 5, item_level = 5, item_text = py ''Primer Coat''\<rparr>]
   \<and> match_item cfg_ex pms_late_leaf (mohor_name_of 19) 19 tie_item index_late_leaf
         (CStr (py ''G2''))
       = Inr (NotFound \<lparr>nf_item = py ''Tie Coat'', nf_mohor = mohor_name_of 19,
                         nf_reason = not_found_reason\<rparr>)"
proof -
  have a: "axis_candidates index_blank (normalized tie_item) (mohor_name_of 19) = []"
    by (simp add: item_defs index_blank_def example_defs)
  have 2: "match_item cfg_ex pms_blank (mohor_name_of 19) 19 tie_item index_blank
         (CStr (py ''G2''))
       = Inr (New (map_of
           [(''mohor'', VCell (CStr (mohor_name_of 19))),
            (''item_text'', VCell (CStr (new_item_label (py ''Tie Coat'')))),
            (''existing_rows'', VRows [4]),
            (''needed_quantity'', VCell (CInt 1)),
            (''a_value'', VCell (CStr (py ''Tie Coat''))),
            (''e_value'', VCell (CStr (py ''G2''))),
            (''n_value'', VCell (CInt 12)),
            (''g_value'', VCell (CInt 12)),
            (''is_new_item'', VCell (CBool True))]))"
    using a by (simp add: match_item_cases create_new_update_def pms_blank_last
        tie_item_def item_ex_def)
  have b: "axis_candidates index_late_leaf (normalized tie_item) (mohor_name_of 19) = []"
    by (simp add: item_defs index_late_leaf_def example_defs)
  have 4: "match_item cfg_ex pms_late_leaf (mohor_name_of 19) 19 tie_item index_late_leaf
         (CStr (py ''G2''))
       = Inr (NotFound \<lparr>nf_item = py ''Tie Coat'', nf_mohor = mohor_name_of 19,
                         nf_reason = not_found_reason\<rparr>)"
    using b by (simp add: match_item_cases create_new_update_def pms_late_leaf_last
        tie_item_def item_ex_def)
  show ?thesis
    by (rule conjI [OF pms_blank_leaves conjI [OF 2 conjI [OF pms_late_leaf_leaves 4]]])
qed

text \<open>
  What \<open>_match_item\<close> does for every input: one of three outcomes, never an exception.
  With a candidate location (a location of the item's key whose axis name is the given
  one) the outcome is Existing with the rows of the candidates in index order and no
  g_value; locations of the key under another axis name are no candidates. Without a
  candidate the outcome follows \<open>find_last_level5_in_section\<close>: New with the row it
  returns, the same a_value, e_value and n_value and the g_value of the auxiliary value,
  or not_found with the reason of the source. Where no row after the anchor of the path
  has an empty text cell, that row is the last leaf of the section
  (\<open>match_item_new_without_blank_rows\<close>).
\<close>

lemma match_item_outcomes:
  "(axis_candidates item_locations (normalized pnt_data) mohor_name \<noteq> [] \<longrightarrow>
      (\<exists>upd w. match_item cfg ws mohor_name mohor_num pnt_data item_locations g2_value
                  = Inr (Existing upd w)
         \<and> upd ''existing_rows'' = Some (VRows (map loc_row
               (axis_candidates item_locations (normalized pnt_data) mohor_name)))
         \<and> upd ''needed_quantity'' = Some (VCell (CInt (quantity pnt_data)))
         \<and> field_values upd = (Some (VCell (CStr (single_line pnt_data))),
               Some (VCell g2_value), Some (VCell (m_value pnt_data)))
         \<and> upd ''g_value'' = None))
   \<and> (axis_candidates item_locations (normalized pnt_data) mohor_name = [] \<longrightarrow>
        (\<exists>r upd. find_last_level5_in_section cfg ws mohor_num = Inr (Some r)
           \<and> match_item cfg ws mohor_name mohor_num pnt_data item_locations g2_value
                = Inr (New upd)
           \<and> upd ''existing_rows'' = Some (VRows [r])
           \<and> upd ''needed_quantity'' = Some (VCell (CInt (quantity pnt_data)))
           \<and> field_values upd = (Some (VCell (CStr (single_line pnt_data))),
                 Some (VCell g2_value), Some (VCell (m_value pnt_data)))
           \<and> upd ''g_value'' = Some (VCell (m_value pnt_data)))
        \<or> (find_last_level5_in_section cfg ws mohor_num = Inr None
           \<and> match_item cfg ws mohor_name mohor_num pnt_data item_locations g2_value
                = Inr (NotFound \<lparr>nf_item = single_line pnt_data, nf_mohor = mohor_name,
                                  nf_reason = not_found_reason\<rparr>)))"
proof (intro conjI impI)
  assume "axis_candidates item_locations (normalized pnt_data) mohor_name \<noteq> []"
  then show "\<exists>upd w. match_item cfg ws mohor_name mohor_num pnt_data item_locations g2_value
                  = Inr (Existing upd w)
         \<and> upd ''existing_rows'' = Some (VRows (map loc_row
               (axis_candidates item_locations (normalized pnt_data) mohor_name)))
         \<and> upd ''needed_quantity'' = Some (VCell (CInt (quantity pnt_data)))
         \<and> field_values upd = (Some (VCell (CStr (single_line pnt_data))),
               Some (VCell g2_value), Some (VCell (m_value pnt_data)))
         \<and> upd ''g_value'' = None"
    by (simp add: match_item_cases create_existing_update_def Let_def field_values_def)
next
  assume e: "axis_candidates item_locations (normalized pnt_data) mohor_name = []"
  have m: "match_item cfg ws mohor_name mohor_num pnt_data item_locations g2_value
      = create_new_update cfg ws mohor_name mohor_num pnt_data g2_value"
    by (simp add: match_item_cases e)
  from create_new_update_cases [of cfg ws mohor_num mohor_name pnt_data g2_value]
  show "(\<exists>r upd. find_last_level5_in_section cfg ws mohor_num = Inr (Some r)
           \<and> match_item cfg ws mohor_name mohor_num pnt_data item_locations g2_value
                = Inr (New upd)
           \<and> upd ''existing_rows'' = Some (VRows [r])
           \<and> upd ''needed_quantity'' = Some (VCell (CInt (quantity pnt_data)))
           \<and> field_values upd = (Some (VCell (CStr (single_line pnt_data))),
                 Some (VCell g2_value), Some (VCell (m_value pnt_data)))
           \<and> upd ''g_value'' = Some (VCell (m_value pnt_data)))
        \<or> (find_last_level5_in_section cfg ws mohor_num = Inr None
           \<and> match_item cfg ws mohor_name mohor_num pnt_data item_locations g2_value
                = Inr (NotFound \<lparr>nf_item = single_line pnt_data, nf_mohor = mohor_name,
                                  nf_reason = not_found_reason\<rparr>))"
  proof
    assume "\<exists>r. 0 < r \<and> find_last_level5_in_section cfg ws mohor_num = Inr (Some r)
        \<and> create_new_update cfg ws mohor_name mohor_num pnt_data g2_value =
            Inr (New (map_of
              [(''mohor'', VCell (CStr mohor_name)),
               (''item_text'', VCell (CStr (new_item_label (single_line pnt_data)))),
               (''existing_rows'', VRows [r]),
               (''needed_quantity'', VCell (CInt (quantity pnt_data))),
               (''a_value'', VCell (CStr (single_line pnt_data))),
               (''e_value'', VCell g2_value),
               (''n_value'', VCell (m_value pnt_data)),
               (''g_value'', VCell (m_value pnt_data)),
               (''is_new_item'', VCell (CBool True))]))"
    then obtain r where
      r: "find_last_level5_in_section cfg ws mohor_num = Inr (Some r)"
      and c: "create_new_update cfg ws mohor_name mohor_num pnt_data g2_value =
            Inr (New (map_of
              [(''mohor'', VCell (CStr mohor_name)),
               (''item_text'', VCell (CStr (new_item_label (single_line pnt_data)))),
               (''existing_rows'', VRows [r]),
               (''needed_quantity'', VCell (CInt (quantity pnt_data))),
               (''a_value'', VCell (CStr (single_line pnt_data))),
               (''e_value'', VCell g2_value),
               (''n_value'', VCell (m_value pnt_data)),
               (''g_value'', VCell (m_value pnt_data)),
               (''is_new_item'', VCell (CBool True))]))"
      by blast
    show ?thesis
      apply (rule disjI1)
      apply (rule exI [of _ r])
      apply (simp add: r m c field_values_def)
      done
  next
    assume "find_last_level5_in_section cfg ws mohor_num = Inr None
       \<and> create_new_update cfg ws mohor_name mohor_num pnt_data g2_value =
            Inr (NotFound \<lparr>nf_item = single_line pnt_data, nf_mohor = mohor_name,
                            nf_reason = not_found_reason\<rparr>)"
    then show ?thesis by (simp add: m)
  qed
qed

lemma match_item_outcomes_example:
  "axis_candidates index_ex (normalized primer_item) (mohor_name_of 19) \<noteq> []
   \<and> (\<exists>upd w. match_item cfg_ex pms_ex (mohor_name_of 19) 19 primer_item index_ex
                  (CStr (py ''G2'')) = Inr (Existing upd w)
         \<and> upd ''existing_rows'' = Some (VRows [4, 5]))
   \<and> axis_candidates index_ex (normalized seal_item) (mohor_name_of 19) = []
   \<and> (\<exists>upd. match_item cfg_ex pms_ex (mohor_name_of 19) 19 seal_item index_ex
                  (CStr (py ''G2'')) = Inr (New upd)
         \<and> upd ''existing_rows'' = Some (VRows [5])
         \<and> upd ''g_value'' = Some (VCell (CInt 12)))
   \<and> match_item cfg_ex pms_ex (mohor_name_of 21) 21 far_item index_ex (CStr (py ''G2''))
       = Inr (NotFound \<lparr>nf_item = py ''Tie Coat'', nf_mohor = mohor_name_of 21,
                         nf_reason = not_found_reason\<rparr>)"
proof -
  have 1: "axis_candidates index_ex (normalized primer_item) (mohor_name_of 19) \<noteq> []"
    using primer_candidates by auto
  have 2: "\<exists>upd w. match_item cfg_ex pms_ex (mohor_name_of 19) 19 primer_item index_ex
                  (CStr (py ''G2'')) = Inr (Existing upd w)
         \<and> upd ''existing_rows'' = Some (VRows [4, 5])"
    using match_item_outcomes [of index_ex primer_item "mohor_name_of 19" cfg_ex pms_ex 19
        "CStr (py ''G2'')"] 1 primer_candidates
    by auto
  have 3: "\<exists>upd. match_item cfg_ex pms_ex (mohor_name_of 19) 19 seal_item index_ex
                  (CStr (py ''G2'')) = Inr (New upd)
         \<and> upd ''existing_rows'' = Some (VRows [5])
         \<and> upd ''g_value'' = Some (VCell (CInt 12))"
    using match_item_outcomes [of index_ex seal_item "mohor_name_of 19" cfg_ex pms_ex 19
        "CStr (py ''G2'')"] seal_candidates pms_ex_last_19
    by (auto simp add: seal_item_def item_ex_def)
  have 4: "match_item cfg_ex pms_ex (mohor_name_of 21) 21 far_item index_ex (CStr (py ''G2''))
       = Inr (NotFound \<lparr>nf_item = py ''Tie Coat'', nf_mohor = mohor_name_of 21,
                         nf_reason = not_found_reason\<rparr>)"
    using match_item_outcomes [of index_ex far_item "mohor_name_of 21" cfg_ex pms_ex 21
        "CStr (py ''G2'')"] far_candidates pms_ex_last_21
    by (auto simp add: far_item_def item_ex_def)
  show ?thesis
    by (rule conjI [OF 1 conjI [OF 2 conjI [OF seal_candidates conjI [OF 3 4]]]])
qed

section \<open>The deficit warning\<close>

text \<open>
  Claim C7. \<open>_create_existing_update\<close> adds a warning exactly when there are fewer
  locations than the needed quantity; the warning holds the needed quantity, the number
  of locations and the deficit \<open>max(0, needed - available)\<close>. The update is the same
  dictionary whether or not there is a warning.
\<close>

theorem create_existing_update_deficit:
  "result_warning (create_existing_update mohor_name pnt_data locations g2_value) =
     (if int (length locations) < quantity pnt_data
      then Some \<lparr>w_item = single_line pnt_data, w_mohor = mohor_name,
                 w_needed = quantity pnt_data, w_available = int (length locations),
                 w_deficit = max 0 (quantity pnt_data - int (length locations))\<rparr>
      else None)
   \<and> result_update (create_existing_update mohor_name pnt_data locations g2_value) =
       Some (map_of
         [(''mohor'', VCell (CStr mohor_name)),
          (''item_text'', VCell (CStr (single_line pnt_data))),
          (''existing_rows'', VRows (map loc_row locations)),
          (''needed_quantity'', VCell (CInt (quantity pnt_data))),
          (''a_value'', VCell (CStr (single_line pnt_data))),
          (''e_value'', VCell g2_value),
          (''n_value'', VCell (m_value pnt_data)),
          (''is_new_item'', VCell (CBool False))])"
  by (simp add: create_existing_update_def Let_def)

text \<open>The example of the claim: quantity 3 and the rows 5 and 9 give the deficit 1.\<close>

theorem create_existing_update_deficit_witness:
  "result_warning (create_existing_update (mohor_name_of 19) primer_item
      [\<lparr>loc_mohor = mohor_name_of 19, loc_row = 5, loc_level = 5,
         loc_original_text = py ''Primer Coat''\<rparr>,
       \<lparr>loc_mohor = mohor_name_of 19, loc_row = 9, loc_level = 5,
         loc_original_text = py ''Primer Coat''\<rparr>] (CStr (py ''G2'')))
     = Some \<lparr>w_item = py ''Primer Coat'', w_mohor = mohor_name_of 19,
              w_needed = 3, w_available = 2, w_deficit = 1\<rparr>
   \<and> map_option (\<lambda>u. u ''existing_rows'')
       (result_update (create_existing_update (mohor_name_of 19) primer_item
      [\<lparr>loc_mohor = mohor_name_of 19, loc_row = 5, loc_level = 5,
         loc_original_text = py ''Primer Coat''\<rparr>,
       \<lparr>loc_mohor = mohor_name_of 19, loc_row = 9, loc_level = 5,
         loc_original_text = py ''Primer Coat''\<rparr>] (CStr (py ''G2''))))
     = Some (Some (VRows [5, 9]))"
  using create_existing_update_deficit [of "mohor_name_of 19" primer_item
      "[\<lparr>loc_mohor = mohor_name_of 19, loc_row = 5, loc_level = 5,
         loc_original_text = py ''Primer Coat''\<rparr>,
       \<lparr>loc_mohor = mohor_name_of 19, loc_row = 9, loc_level = 5,
         loc_original_text = py ''Primer Coat''\<rparr>]" "CStr (py ''G2'')"]
  by (simp add: primer_item_def item_ex_def)

section \<open>The keys of the planned updates\<close>

text \<open>
  Claim C10. Every update of a plan that \<open>plan_updates\<close> returns has the key
  is_new_item with a boolean value, and this value is true exactly when the update has
  the key g_value. The updater reads g_value exactly from the updates that have it, and
  every key it reads with \<open>update[key]\<close> is present, so none of its reads raises
  \<open>KeyError\<close>.
\<close>

theorem plan_updates_keys:
  assumes "plan_updates cfg ws item_locations items_by_axis g2_value
             = Inr (updates, not_found, warnings)"
    and "u \<in> set updates"
  shows "u ''is_new_item'' = Some (VCell (CBool (u ''g_value'' \<noteq> None)))
       \<and> (''g_value'' \<in> set (keys_read u)) = (u ''g_value'' \<noteq> None)
       \<and> (\<exists>vs. process_update_reads u = Inr vs)"
proof -
  let ?P = "\<lambda>u. u ''is_new_item'' = Some (VCell (CBool (u ''g_value'' \<noteq> None)))
       \<and> (''g_value'' \<in> set (keys_read u)) = (u ''g_value'' \<noteq> None)
       \<and> (\<exists>vs. process_update_reads u = Inr vs)"
  from assms(1)
  have p: "plan_axes cfg ws item_locations g2_value ([], [], []) items_by_axis
      = Inr (updates, not_found, warnings)"
    by (simp add: plan_updates_def)
  have init: "\<forall>u\<in>set []. ?P u"
    by simp
  have step: "?P u" if "match_item cfg ws (mohor_name_of n) n d item_locations g2_value = Inr res"
    and "result_update res = Some u" for n d res u
    using that by (rule match_item_keys)
  have "\<forall>u\<in>set updates. ?P u"
    using p init step by (rule plan_axes_keys [where P = ?P])
  then show ?thesis using assms(2) by (rule bspec)
qed

text \<open>
  The plan for the first two example items has an existing item without g_value and a
  new item with it.
\<close>

theorem plan_updates_keys_witness:
  "plan_updates cfg_ex pms_ex index_ex [(19, [primer_item, tie_item])] (CStr (py ''G2''))
     = Inr ([primer_update, tie_update], [],
            [\<lparr>w_item = py ''Primer Coat'', w_mohor = mohor_name_of 19,
               w_needed = 3, w_available = 2, w_deficit = 1\<rparr>])
   \<and> primer_update ''is_new_item'' = Some (VCell (CBool False))
   \<and> primer_update ''g_value'' = None
   \<and> ''g_value'' \<notin> set (keys_read primer_update)
   \<and> (\<exists>vs. process_update_reads primer_update = Inr vs)
   \<and> tie_update ''is_new_item'' = Some (VCell (CBool True))
   \<and> tie_update ''g_value'' = Some (VCell (CInt 12))
   \<and> ''g_value'' \<in> set (keys_read tie_update)
   \<and> (\<exists>vs. process_update_reads tie_update = Inr vs)"
proof -
  have g1: "primer_update ''g_value'' = None"
    by (simp add: primer_update_def)
  have g2: "tie_update ''g_value'' = Some (VCell (CInt 12))"
    by (simp add: tie_update_def)
  have m1: "primer_update \<in> set [primer_update, tie_update]"
    by simp
  have m2: "tie_update \<in> set [primer_update, tie_update]"
    by simp
  note k1 = plan_updates_keys [OF plan_ex m1]
  note k2 = plan_updates_keys [OF plan_ex m2]
  have 1: "primer_update ''is_new_item'' = Some (VCell (CBool False))"
    using k1 g1 by simp
  have 2: "''g_value'' \<notin> set (keys_read primer_update)"
    using k1 g1 by simp
  have 3: "\<exists>vs. process_update_reads primer_update = Inr vs"
    using k1 by (rule conjunct2 [THEN conjunct2])
  have 4: "tie_update ''is_new_item'' = Some (VCell (CBool True))"
    using k2 g2 by simp
  have 5: "''g_value'' \<in> set (keys_read tie_update)"
    using k2 g2 by simp
  have 6: "\<exists>vs. process_update_reads tie_update = Inr vs"
    using k2 by (rule conjunct2 [THEN conjunct2])
  show ?thesis
    by (rule conjI [OF plan_ex conjI [OF 1 conjI [OF g1 conjI [OF 2 conjI [OF 3
          conjI [OF 4 conjI [OF g2 conjI [OF 5 6]]]]]]]])
qed

end
